theory Spec2Isabelle
  imports Main "HOL-Library.Word"
begin

section \<open>The triangle example of egles: a shallow embedding\<close>

text \<open>
  The program under \<open>examples/es2/xorg/triangle\<close> consists of \<open>init.go\<close> and
  \<open>shader.go\<close>. Nearly every statement is a call into a library (OpenGL ES 2, EGL, X,
  the \<open>application\<close> framework, \<open>log\<close>, \<open>time\<close>). The embedding keeps the program's own
  control flow and records each library call, in order, in a trace; what a library call
  returns is supplied by an environment, so that every theorem holds for every behaviour
  of the libraries.
\<close>

subsection \<open>Library calls\<close>

type_synonym u32 = "32 word"
type_synonym i32 = "32 word"
type_synonym uint = "64 word"

text \<open>The constants of package \<open>es2\<close> the program names. Their numeric values are
  never inspected by the program, so they stay symbolic.\<close>

datatype gl_enum =
    FRAGMENT_SHADER | VERTEX_SHADER | COMPILE_STATUS | LINK_STATUS
  | ARRAY_BUFFER | STATIC_DRAW | FLOAT | TRIANGLES
  | COLOR_BUFFER_BIT | DEPTH_BUFFER_BIT
  | RENDERER | VERSION | VENDOR | EXTENSIONS

text \<open>The two host arrays uploaded by \<open>initShaders\<close> (twelve \<open>float32\<close> each).\<close>

datatype host_array = vertices | colors

datatype gl_call =
    CreateShader gl_enum
  | ShaderSource u32 string
  | CompileShader u32
  | GetShaderiv u32 gl_enum
  | GetShaderInfoLog u32 nat
  | CreateProgram
  | AttachShader u32 u32
  | LinkProgram u32
  | GetProgramiv u32 gl_enum
  | GetProgramInfoLog u32 nat
  | GetError
  | GetString gl_enum

datatype gl_draw_call =
    UseProgram u32
  | GetAttribLocation u32 string
  | GenBuffers nat
  | BindBuffer gl_enum uint
  | BufferData gl_enum nat host_array gl_enum
  | EnableVertexAttribArray uint
  | ClearColor int int int int
  | Viewport int int int int
  | Clear "gl_enum list"
  | VertexAttribPointer uint int gl_enum bool int nat
  | DrawArrays gl_enum int int
  | Flush
  | Finish

text \<open>The objects of package \<open>platform\<close> handed to EGL.\<close>

datatype egl_object = Display | Surface | Context

datatype egl_call =
    SwapBuffers egl_object egl_object
  | DestroySurface egl_object egl_object
  | DestroyContext egl_object egl_object
  | Terminate egl_object

datatype chan = pause_chan | terminate_chan | exitCh

datatype x_call =
    NewConn
  | mousebind_Initialize
  | newWindow int int
  | go_xevent_Main
  | xorg_Initialize u32

datatype app_call =
    LockOSThread
  | Ticker_Stop
  | NewTicker int
  | Send chan int
  | Receive chan
  | log_Printf string
  | log_Fatal string
  | application_Exit
  | application_Register string
  | application_InstallSignalHandler
  | application_Run

datatype extcall =
    Gl gl_call
  | Draw gl_draw_call
  | Egl egl_call
  | X x_call
  | App app_call

subsection \<open>Program state, environment, outcomes\<close>

text \<open>The package-level variables of \<open>init.go\<close> and the trace of library calls made
  so far. (The variable \<open>signal\<close> carries no data that is ever read.)\<close>

record world =
  trace :: "extcall list"
  currWidth :: int
  currHeight :: int
  verticesArrayBuffer :: uint
  colorsArrayBuffer :: uint
  attrPos :: uint
  attrColor :: uint

text \<open>The environment answers library calls. A call issued when the trace has length
  \<open>n\<close> is answered by \<open>word_reply n\<close> (handles, status values, error codes) or by
  \<open>string_reply n\<close> (strings); \<open>NewConn_error\<close> is the error of \<open>xgbutil.NewConn\<close>,
  \<open>None\<close> standing for \<open>nil\<close>.\<close>

record env =
  NewConn_error :: "string option"
  word_reply :: "nat \<Rightarrow> 32 word"
  string_reply :: "nat \<Rightarrow> string"

text \<open>A function of the program returns, panics, or ends the process (\<open>os.Exit\<close>).\<close>

datatype 'a outcome =
    Returns 'a world
  | Panics string world
  | Exits int world

definition and_then :: "'a outcome \<Rightarrow> ('a \<Rightarrow> world \<Rightarrow> 'b outcome) \<Rightarrow> 'b outcome" where
  "and_then m f =
     (case m of Returns a w \<Rightarrow> f a w | Panics msg w \<Rightarrow> Panics msg w | Exits c w \<Rightarrow> Exits c w)"

definition perform :: "extcall \<Rightarrow> world \<Rightarrow> world" where
  "perform c w = w\<lparr>trace := trace w @ [c]\<rparr>"

definition reply32 :: "env \<Rightarrow> world \<Rightarrow> 32 word" where
  "reply32 e w = word_reply e (length (trace w))"

definition reply_string :: "env \<Rightarrow> world \<Rightarrow> string" where
  "reply_string e w = string_reply e (length (trace w))"

subsection \<open>The OpenGL ES calls that return something\<close>

definition gl_CreateShader :: "env \<Rightarrow> gl_enum \<Rightarrow> world \<Rightarrow> u32 \<times> world" where
  "gl_CreateShader e ty w = (reply32 e w, perform (Gl (CreateShader ty)) w)"

definition gl_CreateProgram :: "env \<Rightarrow> world \<Rightarrow> u32 \<times> world" where
  "gl_CreateProgram e w = (reply32 e w, perform (Gl CreateProgram) w)"

definition gl_GetShaderiv :: "env \<Rightarrow> u32 \<Rightarrow> gl_enum \<Rightarrow> world \<Rightarrow> i32 \<times> world" where
  "gl_GetShaderiv e shader pname w = (reply32 e w, perform (Gl (GetShaderiv shader pname)) w)"

definition gl_GetProgramiv :: "env \<Rightarrow> u32 \<Rightarrow> gl_enum \<Rightarrow> world \<Rightarrow> i32 \<times> world" where
  "gl_GetProgramiv e p pname w = (reply32 e w, perform (Gl (GetProgramiv p pname)) w)"

definition gl_GetShaderInfoLog :: "env \<Rightarrow> u32 \<Rightarrow> nat \<Rightarrow> world \<Rightarrow> string \<times> world" where
  "gl_GetShaderInfoLog e shader bufsize w =
     (reply_string e w, perform (Gl (GetShaderInfoLog shader bufsize)) w)"

definition gl_GetProgramInfoLog :: "env \<Rightarrow> u32 \<Rightarrow> nat \<Rightarrow> world \<Rightarrow> string \<times> world" where
  "gl_GetProgramInfoLog e p bufsize w =
     (reply_string e w, perform (Gl (GetProgramInfoLog p bufsize)) w)"

definition gl_GetError :: "env \<Rightarrow> world \<Rightarrow> u32 \<times> world" where
  "gl_GetError e w = (reply32 e w, perform (Gl GetError) w)"

definition gl_GetString :: "env \<Rightarrow> gl_enum \<Rightarrow> world \<Rightarrow> string \<times> world" where
  "gl_GetString e name w = (reply_string e w, perform (Gl (GetString name)) w)"

subsection \<open>\<open>check\<close> (init.go)\<close>

text \<open>\<open>fmt.Sprintf("%x", n)\<close> for an unsigned \<open>n\<close>: lower-case hexadecimal digits, no
  leading zeros.\<close>

definition hex_digit :: "nat \<Rightarrow> char" where
  "hex_digit d = ''0123456789abcdef'' ! d"

fun hex :: "nat \<Rightarrow> string" where
  "hex n = (if n < 16 then [hex_digit n] else hex (n div 16) @ [hex_digit (n mod 16)])"

declare hex.simps [simp del]

definition check :: "env \<Rightarrow> world \<Rightarrow> unit outcome" where
  "check e w =
     (let (error, w1) = gl_GetError e w in
      if error \<noteq> 0
      then Panics (''An error occurred! Code: 0x'' @ hex (unat error)) w1
      else Returns () w1)"

subsection \<open>shader.go\<close>

definition FragmentShader :: "env \<Rightarrow> string \<Rightarrow> world \<Rightarrow> u32 outcome" where
  "FragmentShader e s w =
     (let (shader, w1) = gl_CreateShader e FRAGMENT_SHADER w in
      and_then (check e w1) (\<lambda>_ w2.
      and_then (check e (perform (Gl (ShaderSource shader s)) w2)) (\<lambda>_ w3.
      and_then (check e (perform (Gl (CompileShader shader)) w3)) (\<lambda>_ w4.
        let (stat, w5) = gl_GetShaderiv e shader COMPILE_STATUS w4;
            w6 = (if stat = 0 then snd (gl_GetShaderInfoLog e shader 1000 w5) else w5)
        in Returns shader w6))))"

definition VertexShader :: "env \<Rightarrow> string \<Rightarrow> world \<Rightarrow> u32 \<times> world" where
  "VertexShader e s w =
     (let (shader, w1) = gl_CreateShader e VERTEX_SHADER w;
          w2 = perform (Gl (ShaderSource shader s)) w1;
          w3 = perform (Gl (CompileShader shader)) w2;
          (stat, w4) = gl_GetShaderiv e shader COMPILE_STATUS w3;
          w5 = (if stat = 0 then snd (gl_GetShaderInfoLog e shader 1000 w4) else w4)
      in (shader, w5))"

definition Program :: "env \<Rightarrow> u32 \<Rightarrow> u32 \<Rightarrow> world \<Rightarrow> u32 \<times> world" where
  "Program e fsh vsh w =
     (let (p, w1) = gl_CreateProgram e w;
          w2 = perform (Gl (AttachShader p fsh)) w1;
          w3 = perform (Gl (AttachShader p vsh)) w2;
          w4 = perform (Gl (LinkProgram p)) w3;
          (stat, w5) = gl_GetProgramiv e p LINK_STATUS w4;
          w6 = (if stat = 0 then snd (gl_GetProgramInfoLog e p 1000 w5) else w5)
      in (p, w6))"

text \<open>The two shader sources: Go raw strings, each line ending in a newline.\<close>

definition unlines :: "string list \<Rightarrow> string" where
  "unlines ls = concat (map (\<lambda>l. l @ [CHR 0x0A]) ls)"

definition fsh :: string where
  "fsh = unlines
     ['''',
      CHR 0x09 # ''varying lowp vec4 v_color;'',
      '''',
      CHR 0x09 # ''void main() {'',
      CHR 0x09 # CHR 0x09 # ''gl_FragColor = v_color;'',
      CHR 0x09 # ''}'']"

definition vsh :: string where
  "vsh = unlines
     ['''',
      ''        attribute vec4 pos;'',
      ''        attribute vec4 color;'',
      ''        varying lowp vec4 v_color;'',
      '''',
      ''        void main() {'',
      ''          gl_Position = pos;'',
      ''          v_color = color;'',
      ''        }'']"

subsection \<open>init.go: constants, signal handler\<close>

definition INITIAL_WINDOW_WIDTH :: int where "INITIAL_WINDOW_WIDTH = 640"
definition INITIAL_WINDOW_HEIGHT :: int where "INITIAL_WINDOW_HEIGHT = 480"
definition FRAMES_PER_SECOND :: int where "FRAMES_PER_SECOND = 24"

text \<open>\<open>os.Signal\<close> is an interface; \<open>syscall.Signal\<close> (an integer type) is one
  implementation, and any other type with the interface's methods is another.
  \<open>SIGINT\<close> and \<open>SIGTERM\<close> have their POSIX numbers.\<close>

datatype os_Signal = syscall_Signal int | other_Signal string

definition SIGINT :: int where "SIGINT = 2"
definition SIGTERM :: int where "SIGTERM = 15"

definition HandleSignal :: "os_Signal \<Rightarrow> world \<Rightarrow> world" where
  "HandleSignal s w =
     (case s of
        syscall_Signal ss \<Rightarrow>
          (if ss = SIGTERM \<or> ss = SIGINT then perform (App application_Exit) w else w)
      | other_Signal _ \<Rightarrow> w)"

subsection \<open>The ticker and the render loop's constructor\<close>

text \<open>
  \<open>time.Ticker\<close>, as package \<open>time\<close> defines it in the Go releases with buffered timer
  channels (all releases before Go 1.23, and later ones for a program that, like this
  one, declares no newer language version). \<open>NewTicker d\<close> panics unless \<open>d > 0\<close> and
  makes the channel \<open>C\<close> with room for one tick. Each time the period elapses, a running
  ticker puts a tick into \<open>C\<close> without blocking, so the tick is dropped when one is
  still waiting there (\<open>tick_elapses\<close>). \<open>Stop\<close> turns the ticker off, so that no more
  ticks are sent; it neither closes nor empties \<open>C\<close>. \<open>pending\<close> says that a tick waits
  in \<open>C\<close>.
\<close>

record time_Ticker =
  period :: int
  running :: bool
  pending :: bool

definition time_NewTicker :: "int \<Rightarrow> world \<Rightarrow> time_Ticker outcome" where
  "time_NewTicker d w =
     (if d \<le> 0 then Panics ''non-positive interval for NewTicker'' w
      else Returns \<lparr>period = d, running = True, pending = False\<rparr>
             (perform (App (NewTicker d)) w))"

definition Stop :: "time_Ticker \<Rightarrow> world \<Rightarrow> time_Ticker \<times> world" where
  "Stop t w = (t\<lparr>running := False\<rparr>, perform (App Ticker_Stop) w)"

definition tick_elapses :: "time_Ticker \<Rightarrow> time_Ticker" where
  "tick_elapses t = (if running t then t\<lparr>pending := True\<rparr> else t)"

text \<open>The struct \<open>renderLoop\<close>. Its two channels are unbuffered and are referred to by
  name (\<open>pause_chan\<close>, \<open>terminate_chan\<close>).\<close>

record renderLoop =
  ticker :: time_Ticker

text \<open>Go's integer division truncates towards zero and panics on a zero divisor.\<close>

definition go_quot :: "int \<Rightarrow> int \<Rightarrow> int" where
  "go_quot a b = sgn a * sgn b * (\<bar>a\<bar> div \<bar>b\<bar>)"

definition newRenderLoop :: "int \<Rightarrow> world \<Rightarrow> renderLoop outcome" where
  "newRenderLoop fps w =
     (if fps = 0 then Panics ''runtime error: integer divide by zero'' w
      else and_then (time_NewTicker (go_quot 1000000000 fps) w)
             (\<lambda>t w1. Returns \<lparr>ticker = t\<rparr> w1))"

subsection \<open>Setup and drawing\<close>

definition initialize :: "env \<Rightarrow> world \<Rightarrow> unit outcome" where
  "initialize e w =
     (let w1 = perform (X NewConn) w in
      case NewConn_error e of
        Some err \<Rightarrow> Exits 1 (perform (App (log_Fatal err)) w1)
      | None \<Rightarrow>
          \<comment> \<open>\<open>newWindow\<close> is defined in another file of the package; the identifier of
             the window it returns is the environment's reply to the call\<close>
          (let w2 = perform (X mousebind_Initialize) w1;
               w3 = perform (X (newWindow INITIAL_WINDOW_WIDTH INITIAL_WINDOW_HEIGHT)) w2;
               w4 = perform (X go_xevent_Main) w3;
               w5 = perform (X (xorg_Initialize (reply32 e w2))) w4
           in Returns () w5))"

definition reshape :: "int \<Rightarrow> int \<Rightarrow> world \<Rightarrow> world" where
  "reshape width height w =
     perform (Draw (Viewport 0 0 width height)) (w\<lparr>currWidth := width, currHeight := height\<rparr>)"

definition initShaders :: "env \<Rightarrow> world \<Rightarrow> unit outcome" where
  "initShaders e w =
     and_then (FragmentShader e fsh w) (\<lambda>f w1.
       let (v, w2) = VertexShader e vsh w1;
           (program, w3) = Program e f v w2;
           w4 = perform (Draw (UseProgram program)) w3;
           w5 = (perform (Draw (GetAttribLocation program ''pos'')) w4)
                  \<lparr>attrPos := scast (reply32 e w4)\<rparr>;
           w6 = (perform (Draw (GetAttribLocation program ''color'')) w5)
                  \<lparr>attrColor := scast (reply32 e w5)\<rparr>;
           w7 = (perform (Draw (GenBuffers 1)) w6)
                  \<lparr>verticesArrayBuffer := ucast (reply32 e w6)\<rparr>;
           w8 = perform (Draw (BindBuffer ARRAY_BUFFER (verticesArrayBuffer w7))) w7;
           w9 = perform (Draw (BufferData ARRAY_BUFFER (12 * 4) vertices STATIC_DRAW)) w8;
           w10 = (perform (Draw (GenBuffers 1)) w9)
                  \<lparr>colorsArrayBuffer := ucast (reply32 e w9)\<rparr>;
           w11 = perform (Draw (BindBuffer ARRAY_BUFFER (colorsArrayBuffer w10))) w10;
           w12 = perform (Draw (BufferData ARRAY_BUFFER (12 * 4) colors STATIC_DRAW)) w11;
           w13 = perform (Draw (EnableVertexAttribArray (attrPos w12))) w12;
           w14 = perform (Draw (EnableVertexAttribArray (attrColor w13))) w13;
           w15 = perform (Draw (ClearColor 0 0 0 1)) w14
       in Returns () w15)"

definition draw :: "int \<Rightarrow> int \<Rightarrow> world \<Rightarrow> world" where
  "draw width height w =
     (let w1 = perform (Draw (Viewport 0 0 width height)) w;
          w2 = perform (Draw (Clear [COLOR_BUFFER_BIT, DEPTH_BUFFER_BIT])) w1;
          w3 = perform (Draw (BindBuffer ARRAY_BUFFER (verticesArrayBuffer w2))) w2;
          w4 = perform (Draw (VertexAttribPointer (attrPos w3) 4 FLOAT False 0 0)) w3;
          w5 = perform (Draw (BindBuffer ARRAY_BUFFER (colorsArrayBuffer w4))) w4;
          w6 = perform (Draw (VertexAttribPointer (attrColor w5) 4 FLOAT False 0 0)) w5;
          w7 = perform (Draw (DrawArrays TRIANGLES 0 3)) w6;
          w8 = perform (Draw Flush) w7
      in perform (Draw Finish) w8)"

definition cleanup :: "world \<Rightarrow> world" where
  "cleanup w =
     (let w1 = perform (Egl (DestroySurface Display Surface)) w;
          w2 = perform (Egl (DestroyContext Display Context)) w1
      in perform (Egl (Terminate Display)) w2)"

definition printInfo :: "env \<Rightarrow> world \<Rightarrow> world" where
  "printInfo e w =
     (let (s1, w1) = gl_GetString e RENDERER w;
          w2 = perform (App (log_Printf (''GL_RENDERER   = '' @ s1 @ [CHR 0x0A]))) w1;
          (s2, w3) = gl_GetString e VERSION w2;
          w4 = perform (App (log_Printf (''GL_VERSION    = '' @ s2 @ [CHR 0x0A]))) w3;
          (s3, w5) = gl_GetString e VENDOR w4;
          w6 = perform (App (log_Printf (''GL_VENDOR     = '' @ s3 @ [CHR 0x0A]))) w5;
          (s4, w7) = gl_GetString e EXTENSIONS w6
      in perform (App (log_Printf (''GL_EXTENSIONS = '' @ s4 @ [CHR 0x0A]))) w7)"

subsection \<open>\<open>renderLoop.Run\<close>\<close>

text \<open>The three cases of the \<open>select\<close> statement, named by the channel received from,
  and the body of each.\<close>

datatype select_case = from_pause | from_terminate | from_ticker_C

definition Run_case :: "select_case \<Rightarrow> renderLoop \<Rightarrow> world \<Rightarrow> renderLoop \<times> world" where
  "Run_case c l w =
     (case c of
        from_pause \<Rightarrow>
          (let (t, w1) = Stop (ticker l) w
           in (l\<lparr>ticker := t\<rparr>, perform (App (Send pause_chan 0)) w1))
      | from_terminate \<Rightarrow>
          (l, perform (App (Send terminate_chan 0)) (cleanup w))
      | from_ticker_C \<Rightarrow>
          (l, perform (Egl (SwapBuffers Display Surface)) (draw (currWidth w) (currHeight w) w)))"

text \<open>
  What can happen while the loop runs. The loop is either blocked in its \<open>select\<close>
  (\<open>None\<close>) or has received from a channel and has the body of that case before it
  (\<open>Some c\<close>). In the \<open>select\<close> it receives from one of the three channels
  (\<open>selects c\<close>): from the ticker's channel when a tick waits there, which it takes;
  from \<open>pause\<close> or \<open>terminate\<close> when the application sends, which it may do at any
  time. Then the body of the case runs (\<open>runs_body\<close>) and the loop is back at its
  \<open>select\<close>. The ticker belongs to the runtime and its period may elapse at any moment
  (\<open>period_elapses\<close>), also between a receive and the body that follows it; in the
  pause case that is between \<open><-l.pause\<close> and \<open>l.ticker.Stop()\<close>. No body reads the
  ticker's channel and only the first statement of the pause body acts on the ticker, so
  a period that elapses while a body runs has the effect of one that elapses just before
  or just after it. A schedule that asks for a step that is not possible yields \<open>None\<close>.
\<close>

datatype event = period_elapses | selects select_case | runs_body

type_synonym loop_state = "select_case option \<times> renderLoop \<times> world"

definition ready :: "select_case \<Rightarrow> renderLoop \<Rightarrow> bool" where
  "ready c l = (case c of from_ticker_C \<Rightarrow> pending (ticker l) | _ \<Rightarrow> True)"

definition received :: "select_case \<Rightarrow> renderLoop \<Rightarrow> renderLoop" where
  "received c l =
     (case c of from_ticker_C \<Rightarrow> l\<lparr>ticker := (ticker l)\<lparr>pending := False\<rparr>\<rparr> | _ \<Rightarrow> l)"

fun Run_step :: "event \<Rightarrow> loop_state \<Rightarrow> loop_state option" where
  "Run_step period_elapses (pc, l, w) = Some (pc, l\<lparr>ticker := tick_elapses (ticker l)\<rparr>, w)"
| "Run_step (selects c) (pc, l, w) =
     (if pc = None \<and> ready c l then Some (Some c, received c l, w) else None)"
| "Run_step runs_body (pc, l, w) =
     (case pc of
        None \<Rightarrow> None
      | Some c \<Rightarrow> (case Run_case c l w of (l', w') \<Rightarrow> Some (None, l', w')))"

fun Run_loop :: "event list \<Rightarrow> loop_state \<Rightarrow> loop_state option" where
  "Run_loop [] s = Some s"
| "Run_loop (ev # evs) s =
     (case Run_step ev s of None \<Rightarrow> None | Some s' \<Rightarrow> Run_loop evs s')"

definition Run_setup :: "env \<Rightarrow> world \<Rightarrow> unit outcome" where
  "Run_setup e w =
     and_then (initialize e (perform (App LockOSThread) w)) (\<lambda>_ w1.
       initShaders e (reshape INITIAL_WINDOW_WIDTH INITIAL_WINDOW_HEIGHT w1))"

text \<open>\<open>Run\<close> never returns. After a finite schedule it is either in its loop, or the
  setup before the loop has ended the goroutine or the process.\<close>

datatype run_state = Looping "select_case option" renderLoop world | Ended "unit outcome"

definition Run :: "env \<Rightarrow> event list \<Rightarrow> renderLoop \<Rightarrow> world \<Rightarrow> run_state option" where
  "Run e evs l w =
     (case Run_setup e w of
        Returns _ w1 \<Rightarrow>
          (case Run_loop evs (None, l, w1) of
             None \<Rightarrow> None
           | Some (pc', l', w') \<Rightarrow> Some (Looping pc' l' w'))
      | Panics msg w1 \<Rightarrow> Some (Ended (Panics msg w1))
      | Exits c w1 \<Rightarrow> Some (Ended (Exits c w1)))"

subsection \<open>\<open>main\<close>\<close>

text \<open>\<open>info\<close> is the value of the flag \<open>-info\<close> after \<open>flag.Parse\<close>.\<close>

definition main :: "bool \<Rightarrow> env \<Rightarrow> world \<Rightarrow> unit outcome" where
  "main info e w =
     (let w1 = (if info then printInfo e w else w) in
      and_then (newRenderLoop FRAMES_PER_SECOND w1) (\<lambda>l w2.
        let w3 = perform (App (application_Register ''render loop'')) w2;
            w4 = perform (App application_InstallSignalHandler) w3;
            w5 = perform (App application_Run) w4;
            w6 = perform (App (Receive exitCh)) w5
        in Returns () w6))"

subsection \<open>Observations on traces, and concrete inputs\<close>

text \<open>The state in which a function of the program leaves the program, however it ends.\<close>

fun final_world :: "'a outcome \<Rightarrow> world" where
  "final_world (Returns a w) = w"
| "final_world (Panics msg w) = w"
| "final_world (Exits c w) = w"

text \<open>The library calls made between two states of the program.\<close>

definition new_calls :: "world \<Rightarrow> world \<Rightarrow> extcall list" where
  "new_calls w w' = drop (length (trace w)) (trace w')"

text \<open>The environment's answer to the \<open>k\<close>-th library call (counting from 0) that is
  made from state \<open>w\<close> on.\<close>

definition reply_to :: "env \<Rightarrow> world \<Rightarrow> nat \<Rightarrow> 32 word" where
  "reply_to e w k = word_reply e (length (trace w) + k)"

definition string_reply_to :: "env \<Rightarrow> world \<Rightarrow> nat \<Rightarrow> string" where
  "string_reply_to e w k = string_reply e (length (trace w) + k)"

fun is_DrawArrays :: "extcall \<Rightarrow> bool" where
  "is_DrawArrays (Draw (DrawArrays mode first n)) = True"
| "is_DrawArrays c = False"

fun is_SwapBuffers :: "extcall \<Rightarrow> bool" where
  "is_SwapBuffers (Egl (SwapBuffers d s)) = True"
| "is_SwapBuffers c = False"

definition is_frame_call :: "extcall \<Rightarrow> bool" where
  "is_frame_call c = (is_DrawArrays c \<or> is_SwapBuffers c)"

definition draws :: "extcall list \<Rightarrow> nat" where
  "draws tr = length (filter is_DrawArrays tr)"

definition swaps :: "extcall list \<Rightarrow> nat" where
  "swaps tr = length (filter is_SwapBuffers tr)"

text \<open>\<open>GL_FALSE\<close>, the value OpenGL ES 2 reports for \<open>COMPILE_STATUS\<close> and
  \<open>LINK_STATUS\<close> after a failed compilation or link (\<open>GL_TRUE\<close>, 1, after success).
  The program writes the literal \<open>0\<close>.\<close>

definition GL_FALSE :: i32 where "GL_FALSE = 0"

text \<open>An environment that answers the first calls from a list and every later one
  with 0, and a state of the program as it is when the loop runs.\<close>

definition answers :: "32 word list \<Rightarrow> nat \<Rightarrow> 32 word" where
  "answers rs n = (if n < length rs then rs ! n else 0)"

definition env_of :: "string option \<Rightarrow> 32 word list \<Rightarrow> env" where
  "env_of err rs = \<lparr>NewConn_error = err, word_reply = answers rs, string_reply = (\<lambda>n. ''Mesa'')\<rparr>"

text \<open>An environment in which the setup of \<open>Run\<close> succeeds: the X connection is made,
  the window has an identifier, the shaders and the program get the handles 1, 2 and 3,
  no GL error is reported, compilation and linking report success, the attributes have
  the locations 0 and 1 and the buffers the names 1 and 2.\<close>

definition env_ok :: env where
  "env_ok = env_of None
     [0, 0, 0, 0x1c00001, 0, 0, 0, 1, 0, 0, 0, 0, 0, 1, 2, 0, 0, 1, 3, 0, 0, 0, 1, 0, 0, 1,
      1, 0, 0, 2]"

definition world0 :: world where
  "world0 = \<lparr>trace = [], currWidth = 640, currHeight = 480, verticesArrayBuffer = 1,
             colorsArrayBuffer = 2, attrPos = 0, attrColor = 1\<rparr>"

definition loop0 :: renderLoop where
  "loop0 = \<lparr>ticker = \<lparr>period = 41666666, running = True, pending = False\<rparr>\<rparr>"

section \<open>Properties\<close>

subsection \<open>Auxiliary facts\<close>

lemma perform_trace [simp]: "trace (perform c w) = trace w @ [c]"
  by (simp add: perform_def)

lemma check_unfold:
  "check e w =
     (if reply32 e w \<noteq> 0
      then Panics (''An error occurred! Code: 0x'' @ hex (unat (reply32 e w)))
             (w\<lparr>trace := trace w @ [Gl GetError]\<rparr>)
      else Returns () (w\<lparr>trace := trace w @ [Gl GetError]\<rparr>))"
  by (simp add: check_def gl_GetError_def perform_def)

lemma new_calls_append [simp]: "new_calls w (w\<lparr>trace := trace w @ cs\<rparr>) = cs"
  by (simp add: new_calls_def)

lemma VertexShader_unfold:
  "VertexShader e s w =
     (reply32 e w,
      w\<lparr>trace := trace w @
          [Gl (CreateShader VERTEX_SHADER), Gl (ShaderSource (reply32 e w) s),
           Gl (CompileShader (reply32 e w)), Gl (GetShaderiv (reply32 e w) COMPILE_STATUS)] @
          (if reply_to e w 3 = 0
           then [Gl (GetShaderInfoLog (reply32 e w) 1000)] else [])\<rparr>)"
  by (simp add: VertexShader_def gl_CreateShader_def gl_GetShaderiv_def gl_GetShaderInfoLog_def
      perform_def reply32_def reply_to_def Let_def eval_nat_numeral)

lemma Program_unfold:
  "Program e f v w =
     (reply32 e w,
      w\<lparr>trace := trace w @
          [Gl CreateProgram, Gl (AttachShader (reply32 e w) f), Gl (AttachShader (reply32 e w) v),
           Gl (LinkProgram (reply32 e w)), Gl (GetProgramiv (reply32 e w) LINK_STATUS)] @
          (if reply_to e w 4 = 0
           then [Gl (GetProgramInfoLog (reply32 e w) 1000)] else [])\<rparr>)"
  by (simp add: Program_def gl_CreateProgram_def gl_GetProgramiv_def gl_GetProgramInfoLog_def
      perform_def reply32_def reply_to_def Let_def eval_nat_numeral)

lemma FragmentShader_unfold:
  "FragmentShader e s w =
     (if reply_to e w 1 \<noteq> 0
      then Panics (''An error occurred! Code: 0x'' @ hex (unat (reply_to e w 1)))
             (w\<lparr>trace := trace w @ [Gl (CreateShader FRAGMENT_SHADER), Gl GetError]\<rparr>)
      else if reply_to e w 3 \<noteq> 0
      then Panics (''An error occurred! Code: 0x'' @ hex (unat (reply_to e w 3)))
             (w\<lparr>trace := trace w @
                [Gl (CreateShader FRAGMENT_SHADER), Gl GetError,
                 Gl (ShaderSource (reply32 e w) s), Gl GetError]\<rparr>)
      else if reply_to e w 5 \<noteq> 0
      then Panics (''An error occurred! Code: 0x'' @ hex (unat (reply_to e w 5)))
             (w\<lparr>trace := trace w @
                [Gl (CreateShader FRAGMENT_SHADER), Gl GetError,
                 Gl (ShaderSource (reply32 e w) s), Gl GetError,
                 Gl (CompileShader (reply32 e w)), Gl GetError]\<rparr>)
      else Returns (reply32 e w)
             (w\<lparr>trace := trace w @
                [Gl (CreateShader FRAGMENT_SHADER), Gl GetError,
                 Gl (ShaderSource (reply32 e w) s), Gl GetError,
                 Gl (CompileShader (reply32 e w)), Gl GetError,
                 Gl (GetShaderiv (reply32 e w) COMPILE_STATUS)] @
                (if reply_to e w 6 = 0
                 then [Gl (GetShaderInfoLog (reply32 e w) 1000)] else [])\<rparr>))"
  by (simp add: FragmentShader_def gl_CreateShader_def gl_GetShaderiv_def gl_GetShaderInfoLog_def
      check_unfold and_then_def perform_def reply32_def reply_to_def Let_def eval_nat_numeral)

lemma reply_string_irrelevant [simp]:
  "reply32 (e\<lparr>string_reply := logs\<rparr>) w = reply32 e w"
  "reply_to (e\<lparr>string_reply := logs\<rparr>) w k = reply_to e w k"
  by (simp_all add: reply32_def reply_to_def)

lemma draw_unfold:
  "draw wd ht w =
     w\<lparr>trace := trace w @
        [Draw (Viewport 0 0 wd ht), Draw (Clear [COLOR_BUFFER_BIT, DEPTH_BUFFER_BIT]),
         Draw (BindBuffer ARRAY_BUFFER (verticesArrayBuffer w)),
         Draw (VertexAttribPointer (attrPos w) 4 FLOAT False 0 0),
         Draw (BindBuffer ARRAY_BUFFER (colorsArrayBuffer w)),
         Draw (VertexAttribPointer (attrColor w) 4 FLOAT False 0 0),
         Draw (DrawArrays TRIANGLES 0 3), Draw Flush, Draw Finish]\<rparr>"
  by (simp add: draw_def perform_def Let_def)

lemma cleanup_unfold:
  "cleanup w =
     w\<lparr>trace := trace w @
        [Egl (DestroySurface Display Surface), Egl (DestroyContext Display Context),
         Egl (Terminate Display)]\<rparr>"
  by (simp add: cleanup_def perform_def Let_def)

lemma Run_case_pause:
  "Run_case from_pause l w =
     (l\<lparr>ticker := (ticker l)\<lparr>running := False\<rparr>\<rparr>,
      w\<lparr>trace := trace w @ [App Ticker_Stop, App (Send pause_chan 0)]\<rparr>)"
  by (simp add: Run_case_def Stop_def perform_def)

lemma Run_case_terminate:
  "Run_case from_terminate l w =
     (l, w\<lparr>trace := trace w @
            [Egl (DestroySurface Display Surface), Egl (DestroyContext Display Context),
             Egl (Terminate Display), App (Send terminate_chan 0)]\<rparr>)"
  by (simp add: Run_case_def cleanup_unfold perform_def)

lemma Run_case_tick:
  "Run_case from_ticker_C l w =
     (l, w\<lparr>trace := trace w @
            [Draw (Viewport 0 0 (currWidth w) (currHeight w)),
             Draw (Clear [COLOR_BUFFER_BIT, DEPTH_BUFFER_BIT]),
             Draw (BindBuffer ARRAY_BUFFER (verticesArrayBuffer w)),
             Draw (VertexAttribPointer (attrPos w) 4 FLOAT False 0 0),
             Draw (BindBuffer ARRAY_BUFFER (colorsArrayBuffer w)),
             Draw (VertexAttribPointer (attrColor w) 4 FLOAT False 0 0),
             Draw (DrawArrays TRIANGLES 0 3), Draw Flush, Draw Finish,
             Egl (SwapBuffers Display Surface)]\<rparr>)"
  by (simp add: Run_case_def draw_unfold perform_def)

lemma draws_append [simp]: "draws (xs @ ys) = draws xs + draws ys"
  by (simp add: draws_def)

lemma swaps_append [simp]: "swaps (xs @ ys) = swaps xs + swaps ys"
  by (simp add: swaps_def)

lemma Run_loop_append:
  "Run_loop (xs @ ys) s = (case Run_loop xs s of None \<Rightarrow> None | Some s' \<Rightarrow> Run_loop ys s')"
  by (induction xs arbitrary: s) (auto split: option.splits)

lemma frame_calls_replicate:
  "filter is_DrawArrays
     (concat (replicate n [Draw (DrawArrays TRIANGLES 0 3), Egl (SwapBuffers Display Surface)])) =
     replicate n (Draw (DrawArrays TRIANGLES 0 3))"
  "filter is_SwapBuffers
     (concat (replicate n [Draw (DrawArrays TRIANGLES 0 3), Egl (SwapBuffers Display Surface)])) =
     replicate n (Egl (SwapBuffers Display Surface))"
  by (induction n) simp_all

lemma filter_frame_call:
  "filter is_DrawArrays (filter is_frame_call cs) = filter is_DrawArrays cs"
  "filter is_SwapBuffers (filter is_frame_call cs) = filter is_SwapBuffers cs"
  by (simp_all add: is_frame_call_def) (metis+)

lemma alternating_counts:
  assumes "filter is_frame_call cs =
     concat (replicate n [Draw (DrawArrays TRIANGLES 0 3), Egl (SwapBuffers Display Surface)])"
  shows "draws cs = n" and "swaps cs = n"
proof -
  have "filter is_DrawArrays cs = filter is_DrawArrays (filter is_frame_call cs)"
    by (rule filter_frame_call(1) [symmetric])
  also have "\<dots> = replicate n (Draw (DrawArrays TRIANGLES 0 3))"
    by (simp only: assms frame_calls_replicate)
  finally show "draws cs = n" by (simp add: draws_def)
  have "filter is_SwapBuffers cs = filter is_SwapBuffers (filter is_frame_call cs)"
    by (rule filter_frame_call(2) [symmetric])
  also have "\<dots> = replicate n (Egl (SwapBuffers Display Surface))"
    by (simp only: assms frame_calls_replicate)
  finally show "swaps cs = n" by (simp add: swaps_def)
qed

lemma Run_step_calls:
  assumes "Run_step ev (pc, l, w) = Some (pc', l', w')"
  shows "\<exists>cs k. w' = w\<lparr>trace := trace w @ cs\<rparr> \<and>
           filter is_frame_call cs =
             concat (replicate k
               [Draw (DrawArrays TRIANGLES 0 3), Egl (SwapBuffers Display Surface)]) \<and>
           k + of_bool (pc' = Some from_ticker_C) =
             of_bool (pc = Some from_ticker_C) + of_bool (ev = selects from_ticker_C)"
proof (cases ev)
  case period_elapses
  with assms have "w' = w\<lparr>trace := trace w @ []\<rparr>" "pc' = pc" by auto
  with period_elapses show ?thesis
    by (intro exI [of _ "[]"] exI [of _ 0]) simp
next
  case (selects c)
  with assms have "w' = w\<lparr>trace := trace w @ []\<rparr>" "pc = None" "pc' = Some c"
    by (auto split: if_splits)
  with selects show ?thesis
    by (intro exI [of _ "[]"] exI [of _ 0]) auto
next
  case runs_body
  with assms obtain c where pc: "pc = Some c" and body: "Run_case c l w = (l', w')"
    and pc': "pc' = None"
    by (auto split: option.splits prod.splits)
  show ?thesis
  proof (cases c)
    case from_pause
    with body have "w' = w\<lparr>trace := trace w @ [App Ticker_Stop, App (Send pause_chan 0)]\<rparr>"
      by (simp add: Run_case_pause)
    with pc pc' from_pause runs_body show ?thesis
      by (intro exI [of _ "[App Ticker_Stop, App (Send pause_chan 0)]"] exI [of _ 0])
         (simp add: is_frame_call_def)
  next
    case from_terminate
    with body have "w' = w\<lparr>trace := trace w @
            [Egl (DestroySurface Display Surface), Egl (DestroyContext Display Context),
             Egl (Terminate Display), App (Send terminate_chan 0)]\<rparr>"
      by (simp add: Run_case_terminate)
    with pc pc' from_terminate runs_body show ?thesis
      by (intro exI [of _ "[Egl (DestroySurface Display Surface),
             Egl (DestroyContext Display Context),
             Egl (Terminate Display), App (Send terminate_chan 0)]"] exI [of _ 0])
         (simp add: is_frame_call_def)
  next
    case from_ticker_C
    with body have "w' = w\<lparr>trace := trace w @
            [Draw (Viewport 0 0 (currWidth w) (currHeight w)),
             Draw (Clear [COLOR_BUFFER_BIT, DEPTH_BUFFER_BIT]),
             Draw (BindBuffer ARRAY_BUFFER (verticesArrayBuffer w)),
             Draw (VertexAttribPointer (attrPos w) 4 FLOAT False 0 0),
             Draw (BindBuffer ARRAY_BUFFER (colorsArrayBuffer w)),
             Draw (VertexAttribPointer (attrColor w) 4 FLOAT False 0 0),
             Draw (DrawArrays TRIANGLES 0 3), Draw Flush, Draw Finish,
             Egl (SwapBuffers Display Surface)]\<rparr>"
      by (simp add: Run_case_tick)
    with pc pc' from_ticker_C runs_body show ?thesis
      by (intro exI [of _ "[Draw (Viewport 0 0 (currWidth w) (currHeight w)),
             Draw (Clear [COLOR_BUFFER_BIT, DEPTH_BUFFER_BIT]),
             Draw (BindBuffer ARRAY_BUFFER (verticesArrayBuffer w)),
             Draw (VertexAttribPointer (attrPos w) 4 FLOAT False 0 0),
             Draw (BindBuffer ARRAY_BUFFER (colorsArrayBuffer w)),
             Draw (VertexAttribPointer (attrColor w) 4 FLOAT False 0 0),
             Draw (DrawArrays TRIANGLES 0 3), Draw Flush, Draw Finish,
             Egl (SwapBuffers Display Surface)]"] exI [of _ 1])
         (simp add: is_frame_call_def)
  qed
qed

lemma Run_loop_calls:
  "Run_loop evs (pc, l, w) = Some (pc', l', w') \<Longrightarrow>
   \<exists>cs n. w' = w\<lparr>trace := trace w @ cs\<rparr> \<and>
     filter is_frame_call cs =
       concat (replicate n
         [Draw (DrawArrays TRIANGLES 0 3), Egl (SwapBuffers Display Surface)]) \<and>
     n + of_bool (pc' = Some from_ticker_C) =
       of_bool (pc = Some from_ticker_C) + count_list evs (selects from_ticker_C)"
proof (induction evs arbitrary: pc l w)
  case Nil
  then have "w' = w\<lparr>trace := trace w @ []\<rparr>" "pc' = pc" by simp_all
  then show ?case by (intro exI [of _ "[]"] exI [of _ 0]) simp
next
  case (Cons ev evs)
  from Cons.prems obtain pc1 l1 w1 where
    step: "Run_step ev (pc, l, w) = Some (pc1, l1, w1)"
    and rest: "Run_loop evs (pc1, l1, w1) = Some (pc', l', w')"
    by (auto split: option.splits)
  from Run_step_calls [OF step] obtain cs1 k where
    s1: "w1 = w\<lparr>trace := trace w @ cs1\<rparr>"
    "filter is_frame_call cs1 =
       concat (replicate k [Draw (DrawArrays TRIANGLES 0 3), Egl (SwapBuffers Display Surface)])"
    "k + of_bool (pc1 = Some from_ticker_C) =
       of_bool (pc = Some from_ticker_C) + of_bool (ev = selects from_ticker_C)"
    by blast
  from Cons.IH [OF rest] obtain cs2 n where
    s2: "w' = w1\<lparr>trace := trace w1 @ cs2\<rparr>"
    "filter is_frame_call cs2 =
       concat (replicate n [Draw (DrawArrays TRIANGLES 0 3), Egl (SwapBuffers Display Surface)])"
    "n + of_bool (pc' = Some from_ticker_C) =
       of_bool (pc1 = Some from_ticker_C) + count_list evs (selects from_ticker_C)"
    by blast
  from s1 s2 have "w' = w\<lparr>trace := trace w @ (cs1 @ cs2)\<rparr>" by simp
  moreover from s1 s2 have "filter is_frame_call (cs1 @ cs2) =
       concat (replicate (k + n)
         [Draw (DrawArrays TRIANGLES 0 3), Egl (SwapBuffers Display Surface)])"
    by (simp add: replicate_add)
  moreover from s1(3) s2(3) have "(k + n) + of_bool (pc' = Some from_ticker_C) =
       of_bool (pc = Some from_ticker_C) + count_list (ev # evs) (selects from_ticker_C)"
    by (cases "ev = selects from_ticker_C") simp_all
  ultimately show ?case by blast
qed

lemma stopped_step:
  assumes "\<not> running (ticker l)" and "Run_step ev (pc, l, w) = Some (pc', l', w')"
  shows "\<not> running (ticker l') \<and>
         draws (trace w) \<le> draws (trace w') \<and> swaps (trace w) \<le> swaps (trace w') \<and>
         draws (trace w') + of_bool (pending (ticker l')) + of_bool (pc' = Some from_ticker_C) =
           draws (trace w) + of_bool (pending (ticker l)) + of_bool (pc = Some from_ticker_C) \<and>
         swaps (trace w') + of_bool (pending (ticker l')) + of_bool (pc' = Some from_ticker_C) =
           swaps (trace w) + of_bool (pending (ticker l)) + of_bool (pc = Some from_ticker_C)"
proof (cases ev)
  case period_elapses
  with assms show ?thesis by (auto simp: tick_elapses_def)
next
  case (selects c)
  with assms show ?thesis
    by (cases c) (auto simp: ready_def received_def split: if_splits)
next
  case runs_body
  with assms obtain c where pc: "pc = Some c" and body: "Run_case c l w = (l', w')"
    and pc': "pc' = None"
    by (auto split: option.splits prod.splits)
  with assms(1) show ?thesis
    by (cases c)
       (auto simp: Run_case_pause Run_case_terminate Run_case_tick draws_def swaps_def)
qed

lemma stopped_loop:
  "\<not> running (ticker l) \<Longrightarrow> Run_loop evs (pc, l, w) = Some (pc', l', w') \<Longrightarrow>
   \<not> running (ticker l') \<and>
   draws (trace w) \<le> draws (trace w') \<and> swaps (trace w) \<le> swaps (trace w') \<and>
   draws (trace w') + of_bool (pending (ticker l')) + of_bool (pc' = Some from_ticker_C) =
     draws (trace w) + of_bool (pending (ticker l)) + of_bool (pc = Some from_ticker_C) \<and>
   swaps (trace w') + of_bool (pending (ticker l')) + of_bool (pc' = Some from_ticker_C) =
     swaps (trace w) + of_bool (pending (ticker l)) + of_bool (pc = Some from_ticker_C)"
proof (induction evs arbitrary: pc l w)
  case Nil
  then show ?case by simp
next
  case (Cons ev evs)
  from Cons.prems(2) obtain pc1 l1 w1 where
    step: "Run_step ev (pc, l, w) = Some (pc1, l1, w1)"
    and rest: "Run_loop evs (pc1, l1, w1) = Some (pc', l', w')"
    by (auto split: option.splits)
  from stopped_step [OF Cons.prems(1) step] Cons.IH [OF _ rest] show ?case
    by simp
qed

lemma pause_body_step:
  "Run_step runs_body (Some from_pause, l, w) =
     Some (None, l\<lparr>ticker := (ticker l)\<lparr>running := False\<rparr>\<rparr>,
           w\<lparr>trace := trace w @ [App Ticker_Stop, App (Send pause_chan 0)]\<rparr>)"
  by (simp add: Run_case_pause)

lemma before_Stop:
  "Run_loop evs (Some from_pause, l, w) = Some (pc', l', w') \<Longrightarrow>
   (pc' = Some from_pause \<and> w' = w) \<or>
   (\<exists>pre post l1.
      evs = pre @ runs_body # post \<and>
      Run_loop pre (Some from_pause, l, w) = Some (Some from_pause, l1, w) \<and>
      Run_loop (runs_body # post) (Some from_pause, l1, w) = Some (pc', l', w'))"
proof (induction evs arbitrary: l)
  case Nil
  then show ?case by simp
next
  case (Cons ev evs)
  show ?case
  proof (cases ev)
    case period_elapses
    let ?l = "l\<lparr>ticker := tick_elapses (ticker l)\<rparr>"
    from Cons.prems period_elapses
    have rest: "Run_loop evs (Some from_pause, ?l, w) = Some (pc', l', w')" by simp
    from Cons.IH [OF rest] show ?thesis
    proof
      assume "pc' = Some from_pause \<and> w' = w"
      then show ?thesis by simp
    next
      assume "\<exists>pre post l1. evs = pre @ runs_body # post \<and>
        Run_loop pre (Some from_pause, ?l, w) = Some (Some from_pause, l1, w) \<and>
        Run_loop (runs_body # post) (Some from_pause, l1, w) = Some (pc', l', w')"
      then obtain pre post l1 where
        "evs = pre @ runs_body # post"
        "Run_loop pre (Some from_pause, ?l, w) = Some (Some from_pause, l1, w)"
        "Run_loop (runs_body # post) (Some from_pause, l1, w) = Some (pc', l', w')"
        by blast
      with period_elapses have
        "ev # evs = (period_elapses # pre) @ runs_body # post \<and>
         Run_loop (period_elapses # pre) (Some from_pause, l, w) = Some (Some from_pause, l1, w) \<and>
         Run_loop (runs_body # post) (Some from_pause, l1, w) = Some (pc', l', w')"
        by simp
      then show ?thesis by blast
    qed
  next
    case (selects c)
    with Cons.prems show ?thesis by simp
  next
    case runs_body
    with Cons.prems have
      "ev # evs = [] @ runs_body # evs \<and>
       Run_loop [] (Some from_pause, l, w) = Some (Some from_pause, l, w) \<and>
       Run_loop (runs_body # evs) (Some from_pause, l, w) = Some (pc', l', w')"
      by simp
    then show ?thesis by blast
  qed
qed

lemma from_Stop_on:
  assumes "Run_loop (runs_body # post) (Some from_pause, l1, w) = Some (pc', l', w')"
  shows "\<not> running (ticker l') \<and>
         draws (trace w) \<le> draws (trace w') \<and> swaps (trace w) \<le> swaps (trace w') \<and>
         draws (trace w') + of_bool (pending (ticker l')) + of_bool (pc' = Some from_ticker_C) =
           draws (trace w) + of_bool (pending (ticker l1)) \<and>
         swaps (trace w') + of_bool (pending (ticker l')) + of_bool (pc' = Some from_ticker_C) =
           swaps (trace w) + of_bool (pending (ticker l1))"
proof -
  let ?l = "l1\<lparr>ticker := (ticker l1)\<lparr>running := False\<rparr>\<rparr>"
  let ?w = "w\<lparr>trace := trace w @ [App Ticker_Stop, App (Send pause_chan 0)]\<rparr>"
  from assms have rest: "Run_loop post (None, ?l, ?w) = Some (pc', l', w')"
    by (simp add: Run_case_pause)
  have "\<not> running (ticker ?l)" by simp
  from stopped_loop [OF this rest] show ?thesis
    by (simp add: draws_def swaps_def)
qed

lemma and_then_weak_cong: "m = m' \<Longrightarrow> and_then m f = and_then m' f"
  by simp

lemma and_then_simps:
  "and_then (Returns a w) f = f a w"
  "and_then (Panics msg w) f = Panics msg w"
  "and_then (Exits c w) f = Exits c w"
  by (simp_all add: and_then_def)

lemma setup_ok:
  "Run_setup env_ok world0 =
     Returns ()
       (world0\<lparr>trace :=
          [App LockOSThread, X NewConn, X mousebind_Initialize, X (newWindow 640 480),
           X go_xevent_Main, X (xorg_Initialize 0x1c00001), Draw (Viewport 0 0 640 480),
           Gl (CreateShader FRAGMENT_SHADER), Gl GetError, Gl (ShaderSource 1 fsh), Gl GetError,
           Gl (CompileShader 1), Gl GetError, Gl (GetShaderiv 1 COMPILE_STATUS),
           Gl (CreateShader VERTEX_SHADER), Gl (ShaderSource 2 vsh), Gl (CompileShader 2),
           Gl (GetShaderiv 2 COMPILE_STATUS),
           Gl CreateProgram, Gl (AttachShader 3 1), Gl (AttachShader 3 2), Gl (LinkProgram 3),
           Gl (GetProgramiv 3 LINK_STATUS),
           Draw (UseProgram 3), Draw (GetAttribLocation 3 ''pos''),
           Draw (GetAttribLocation 3 ''color''), Draw (GenBuffers 1),
           Draw (BindBuffer ARRAY_BUFFER 1),
           Draw (BufferData ARRAY_BUFFER 48 vertices STATIC_DRAW),
           Draw (GenBuffers 1), Draw (BindBuffer ARRAY_BUFFER 2),
           Draw (BufferData ARRAY_BUFFER 48 colors STATIC_DRAW),
           Draw (EnableVertexAttribArray 0), Draw (EnableVertexAttribArray 1),
           Draw (ClearColor 0 0 0 1)]\<rparr>)"
  by (simp add: Run_setup_def initialize_def initShaders_def reshape_def
        FragmentShader_unfold VertexShader_unfold Program_unfold and_then_simps perform_def
        reply32_def reply_to_def env_ok_def env_of_def answers_def world0_def Let_def
        INITIAL_WINDOW_WIDTH_def INITIAL_WINDOW_HEIGHT_def
      cong: let_weak_cong and_then_weak_cong)

lemma go_quot_pos: "0 < b \<Longrightarrow> 0 \<le> a \<Longrightarrow> go_quot a b = a div b"
  by (cases "a = 0") (simp_all add: go_quot_def)

lemma newRenderLoop_unfold:
  "newRenderLoop fps w =
     (if fps = 0 then Panics ''runtime error: integer divide by zero'' w
      else if go_quot 1000000000 fps \<le> 0 then Panics ''non-positive interval for NewTicker'' w
      else Returns \<lparr>ticker = \<lparr>period = go_quot 1000000000 fps, running = True, pending = False\<rparr>\<rparr>
             (w\<lparr>trace := trace w @ [App (NewTicker (go_quot 1000000000 fps))]\<rparr>))"
  by (simp add: newRenderLoop_def time_NewTicker_def and_then_def perform_def)

lemma printInfo_unfold:
  "printInfo e w =
     w\<lparr>trace := trace w @
        [Gl (GetString RENDERER),
         App (log_Printf (''GL_RENDERER   = '' @ string_reply_to e w 0 @ [CHR 0x0A])),
         Gl (GetString VERSION),
         App (log_Printf (''GL_VERSION    = '' @ string_reply_to e w 2 @ [CHR 0x0A])),
         Gl (GetString VENDOR),
         App (log_Printf (''GL_VENDOR     = '' @ string_reply_to e w 4 @ [CHR 0x0A])),
         Gl (GetString EXTENSIONS),
         App (log_Printf (''GL_EXTENSIONS = '' @ string_reply_to e w 6 @ [CHR 0x0A]))]\<rparr>"
  by (simp add: printInfo_def gl_GetString_def reply_string_def string_reply_to_def perform_def
      Let_def eval_nat_numeral)

lemma main_unfold:
  "main info e w =
     Returns ()
       (w\<lparr>trace := trace w @
          (if info
           then [Gl (GetString RENDERER),
                 App (log_Printf (''GL_RENDERER   = '' @ string_reply_to e w 0 @ [CHR 0x0A])),
                 Gl (GetString VERSION),
                 App (log_Printf (''GL_VERSION    = '' @ string_reply_to e w 2 @ [CHR 0x0A])),
                 Gl (GetString VENDOR),
                 App (log_Printf (''GL_VENDOR     = '' @ string_reply_to e w 4 @ [CHR 0x0A])),
                 Gl (GetString EXTENSIONS),
                 App (log_Printf (''GL_EXTENSIONS = '' @ string_reply_to e w 6 @ [CHR 0x0A]))]
           else []) @
          [App (NewTicker 41666666), App (application_Register ''render loop''),
           App application_InstallSignalHandler, App application_Run,
           App (Receive exitCh)]\<rparr>)"
  by (simp add: main_def newRenderLoop_unfold FRAMES_PER_SECOND_def go_quot_def and_then_def
      printInfo_unfold perform_def Let_def)

subsection \<open>\<open>check\<close>\<close>

text \<open>
  Claim C3. \<open>check\<close> panics if and only if the error code that \<open>gl.GetError\<close> returns is
  not zero, and it never ends the process. When the code is 0 it returns normally, and
  the state it returns is the one it was called in, with nothing but its one call of
  \<open>gl.GetError\<close> added to the record of library calls: no variable of the program
  changes. When the code is not 0 the panic carries the code in hexadecimal.
\<close>

theorem check_panics_iff_error:
  "((\<exists>msg w'. check e w = Panics msg w') \<longleftrightarrow> fst (gl_GetError e w) \<noteq> 0) \<and>
   (\<forall>c w'. check e w \<noteq> Exits c w') \<and>
   check e w =
     (if fst (gl_GetError e w) = 0 then Returns () (w\<lparr>trace := trace w @ [Gl GetError]\<rparr>)
      else Panics (''An error occurred! Code: 0x'' @ hex (unat (fst (gl_GetError e w))))
             (w\<lparr>trace := trace w @ [Gl GetError]\<rparr>))"
  by (simp add: check_unfold gl_GetError_def)

theorem check_panics_iff_error_witness:
  "fst (gl_GetError (env_of None []) world0) = 0 \<and>
   check (env_of None []) world0 = Returns () (world0\<lparr>trace := [Gl GetError]\<rparr>) \<and>
   fst (gl_GetError (env_of None [0x505]) world0) \<noteq> 0 \<and>
   check (env_of None [0x505]) world0 =
     Panics ''An error occurred! Code: 0x505'' (world0\<lparr>trace := [Gl GetError]\<rparr>)"
  using check_panics_iff_error [of "env_of None []" world0]
        check_panics_iff_error [of "env_of None [0x505]" world0]
  by (simp add: gl_GetError_def reply32_def env_of_def answers_def world0_def hex.simps
      hex_digit_def)

subsection \<open>The status checks of shader.go\<close>

text \<open>
  Claim C8, as amended. \<open>VertexShader\<close> and \<open>Program\<close> always, and \<open>FragmentShader\<close>
  whenever it returns, query the status exactly once, as their last call but for the
  retrieval of the log: \<open>COMPILE_STATUS\<close> for the two shader functions, \<open>LINK_STATUS\<close>
  for \<open>Program\<close>. Each takes the failure branch, whose one effect is to retrieve the
  info log (1000 bytes), exactly when the value reported for that query is zero,
  \<open>GL_FALSE\<close>, the value the graphics API reports on failure. Every non-zero status is
  treated as success. \<open>FragmentShader\<close> reaches its status query only when its three
  calls of \<open>check\<close> (its second, fourth and sixth library call) read the error code 0:
  it returns exactly then, it queries the status exactly then, and when it panics it has
  made no status query and retrieved no log. It never ends the process.
\<close>

theorem status_checks_branch_on_GL_FALSE:
  "(case VertexShader e s w of (h, w') \<Rightarrow>
      new_calls w w' =
        [Gl (CreateShader VERTEX_SHADER), Gl (ShaderSource h s), Gl (CompileShader h),
         Gl (GetShaderiv h COMPILE_STATUS)] @
        (if reply_to e w 3 = GL_FALSE then [Gl (GetShaderInfoLog h 1000)] else []) \<and>
      (Gl (GetShaderInfoLog h 1000) \<in> set (new_calls w w') \<longleftrightarrow> reply_to e w 3 = GL_FALSE)) \<and>
   (case Program e f v w of (p, w') \<Rightarrow>
      new_calls w w' =
        [Gl CreateProgram, Gl (AttachShader p f), Gl (AttachShader p v), Gl (LinkProgram p),
         Gl (GetProgramiv p LINK_STATUS)] @
        (if reply_to e w 4 = GL_FALSE then [Gl (GetProgramInfoLog p 1000)] else []) \<and>
      (Gl (GetProgramInfoLog p 1000) \<in> set (new_calls w w') \<longleftrightarrow> reply_to e w 4 = GL_FALSE)) \<and>
   (\<forall>h w'. FragmentShader e s w = Returns h w' \<longrightarrow>
      new_calls w w' =
        [Gl (CreateShader FRAGMENT_SHADER), Gl GetError, Gl (ShaderSource h s), Gl GetError,
         Gl (CompileShader h), Gl GetError, Gl (GetShaderiv h COMPILE_STATUS)] @
        (if reply_to e w 6 = GL_FALSE then [Gl (GetShaderInfoLog h 1000)] else []) \<and>
      (Gl (GetShaderInfoLog h 1000) \<in> set (new_calls w w') \<longleftrightarrow> reply_to e w 6 = GL_FALSE)) \<and>
   ((\<exists>h w'. FragmentShader e s w = Returns h w') \<longleftrightarrow>
      reply_to e w 1 = 0 \<and> reply_to e w 3 = 0 \<and> reply_to e w 5 = 0) \<and>
   ((\<exists>h. Gl (GetShaderiv h COMPILE_STATUS) \<in>
          set (new_calls w (final_world (FragmentShader e s w)))) \<longleftrightarrow>
      reply_to e w 1 = 0 \<and> reply_to e w 3 = 0 \<and> reply_to e w 5 = 0) \<and>
   (\<forall>msg w'. FragmentShader e s w = Panics msg w' \<longrightarrow>
      (reply_to e w 1 \<noteq> 0 \<or> reply_to e w 3 \<noteq> 0 \<or> reply_to e w 5 \<noteq> 0) \<and>
      (\<forall>h pname. Gl (GetShaderiv h pname) \<notin> set (new_calls w w')) \<and>
      (\<forall>h n. Gl (GetShaderInfoLog h n) \<notin> set (new_calls w w'))) \<and>
   (\<forall>c w'. FragmentShader e s w \<noteq> Exits c w')"
proof (intro conjI)
  show "case VertexShader e s w of (h, w') \<Rightarrow>
      new_calls w w' =
        [Gl (CreateShader VERTEX_SHADER), Gl (ShaderSource h s), Gl (CompileShader h),
         Gl (GetShaderiv h COMPILE_STATUS)] @
        (if reply_to e w 3 = GL_FALSE then [Gl (GetShaderInfoLog h 1000)] else []) \<and>
      (Gl (GetShaderInfoLog h 1000) \<in> set (new_calls w w') \<longleftrightarrow> reply_to e w 3 = GL_FALSE)"
    by (simp add: VertexShader_unfold GL_FALSE_def)
  show "case Program e f v w of (p, w') \<Rightarrow>
      new_calls w w' =
        [Gl CreateProgram, Gl (AttachShader p f), Gl (AttachShader p v), Gl (LinkProgram p),
         Gl (GetProgramiv p LINK_STATUS)] @
        (if reply_to e w 4 = GL_FALSE then [Gl (GetProgramInfoLog p 1000)] else []) \<and>
      (Gl (GetProgramInfoLog p 1000) \<in> set (new_calls w w') \<longleftrightarrow> reply_to e w 4 = GL_FALSE)"
    by (simp add: Program_unfold GL_FALSE_def)
  show "\<forall>h w'. FragmentShader e s w = Returns h w' \<longrightarrow>
      new_calls w w' =
        [Gl (CreateShader FRAGMENT_SHADER), Gl GetError, Gl (ShaderSource h s), Gl GetError,
         Gl (CompileShader h), Gl GetError, Gl (GetShaderiv h COMPILE_STATUS)] @
        (if reply_to e w 6 = GL_FALSE then [Gl (GetShaderInfoLog h 1000)] else []) \<and>
      (Gl (GetShaderInfoLog h 1000) \<in> set (new_calls w w') \<longleftrightarrow> reply_to e w 6 = GL_FALSE)"
    by (auto simp add: FragmentShader_unfold GL_FALSE_def split: if_splits)
  show "(\<exists>h w'. FragmentShader e s w = Returns h w') \<longleftrightarrow>
      reply_to e w 1 = 0 \<and> reply_to e w 3 = 0 \<and> reply_to e w 5 = 0"
    by (simp add: FragmentShader_unfold)
  show "(\<exists>h. Gl (GetShaderiv h COMPILE_STATUS) \<in>
          set (new_calls w (final_world (FragmentShader e s w)))) \<longleftrightarrow>
      reply_to e w 1 = 0 \<and> reply_to e w 3 = 0 \<and> reply_to e w 5 = 0"
    by (simp add: FragmentShader_unfold)
  show "\<forall>msg w'. FragmentShader e s w = Panics msg w' \<longrightarrow>
      (reply_to e w 1 \<noteq> 0 \<or> reply_to e w 3 \<noteq> 0 \<or> reply_to e w 5 \<noteq> 0) \<and>
      (\<forall>h pname. Gl (GetShaderiv h pname) \<notin> set (new_calls w w')) \<and>
      (\<forall>h n. Gl (GetShaderInfoLog h n) \<notin> set (new_calls w w'))"
    by (auto simp add: FragmentShader_unfold split: if_splits)
  show "\<forall>c w'. FragmentShader e s w \<noteq> Exits c w'"
    by (simp add: FragmentShader_unfold)
qed

theorem status_checks_branch_on_GL_FALSE_witness:
  "FragmentShader (env_of None [7, 0, 0, 0, 0, 0, 0]) fsh world0 =
     Returns 7 (world0\<lparr>trace :=
       [Gl (CreateShader FRAGMENT_SHADER), Gl GetError, Gl (ShaderSource 7 fsh), Gl GetError,
        Gl (CompileShader 7), Gl GetError, Gl (GetShaderiv 7 COMPILE_STATUS),
        Gl (GetShaderInfoLog 7 1000)]\<rparr>) \<and>
   reply_to (env_of None [7, 0, 0, 0, 0, 0, 0]) world0 6 = GL_FALSE \<and>
   new_calls world0 (world0\<lparr>trace :=
       [Gl (CreateShader FRAGMENT_SHADER), Gl GetError, Gl (ShaderSource 7 fsh), Gl GetError,
        Gl (CompileShader 7), Gl GetError, Gl (GetShaderiv 7 COMPILE_STATUS),
        Gl (GetShaderInfoLog 7 1000)]\<rparr>) =
     [Gl (CreateShader FRAGMENT_SHADER), Gl GetError, Gl (ShaderSource 7 fsh), Gl GetError,
      Gl (CompileShader 7), Gl GetError, Gl (GetShaderiv 7 COMPILE_STATUS),
      Gl (GetShaderInfoLog 7 1000)] \<and>
   reply_to (env_of None [7, 0, 0, 0, 0, 0x502]) world0 5 = 0x502 \<and>
   FragmentShader (env_of None [7, 0, 0, 0, 0, 0x502]) fsh world0 =
     Panics ''An error occurred! Code: 0x502''
       (world0\<lparr>trace :=
          [Gl (CreateShader FRAGMENT_SHADER), Gl GetError, Gl (ShaderSource 7 fsh), Gl GetError,
           Gl (CompileShader 7), Gl GetError]\<rparr>)"
  using status_checks_branch_on_GL_FALSE
          [where e = "env_of None [7, 0, 0, 0, 0, 0, 0]" and s = fsh and w = world0]
        status_checks_branch_on_GL_FALSE
          [where e = "env_of None [7, 0, 0, 0, 0, 0x502]" and s = fsh and w = world0]
  by (simp add: FragmentShader_unfold reply_to_def reply32_def env_of_def answers_def
      world0_def GL_FALSE_def new_calls_def hex.simps hex_digit_def)

text \<open>
  Claim C8 as stated equates failure with a non-zero status. With the non-zero status 1
  reported for the query, \<open>VertexShader\<close> does not take the failure branch; with status 0
  it does, and what it then returns is the handle (here 0), not a status.
\<close>

theorem nonzero_status_is_success_counterexample:
  "reply_to (env_of None [7, 0, 0, 1]) world0 3 = 1 \<and>
   VertexShader (env_of None [7, 0, 0, 1]) vsh world0 =
     (7, world0\<lparr>trace :=
        [Gl (CreateShader VERTEX_SHADER), Gl (ShaderSource 7 vsh), Gl (CompileShader 7),
         Gl (GetShaderiv 7 COMPILE_STATUS)]\<rparr>) \<and>
   reply_to (env_of None [0, 0, 0, 0]) world0 3 = 0 \<and>
   VertexShader (env_of None [0, 0, 0, 0]) vsh world0 =
     (0, world0\<lparr>trace :=
        [Gl (CreateShader VERTEX_SHADER), Gl (ShaderSource 0 vsh), Gl (CompileShader 0),
         Gl (GetShaderiv 0 COMPILE_STATUS), Gl (GetShaderInfoLog 0 1000)]\<rparr>)"
  by (simp add: VertexShader_unfold reply_to_def reply32_def env_of_def answers_def world0_def)

subsection \<open>What the functions of shader.go return\<close>

text \<open>
  Claim C9, as amended. For every source string and every reply of the environment, so
  for every compile or link status, \<open>VertexShader\<close> returns the handle that
  \<open>gl.CreateShader\<close> gave it and \<open>Program\<close> the handle that \<open>gl.CreateProgram\<close> gave
  it; neither can panic. \<open>FragmentShader\<close> returns the handle that \<open>gl.CreateShader\<close>
  gave it if its three calls of \<open>check\<close> (its second, fourth and sixth library call)
  read the error code 0, and panics otherwise; the status plays no part in that. The
  info log is discarded: whatever strings the environment supplies, the three functions
  return the same value and make the same calls.
\<close>

theorem shader_functions_return_handle:
  "fst (VertexShader e s w) = fst (gl_CreateShader e VERTEX_SHADER w) \<and>
   fst (Program e f v w) = fst (gl_CreateProgram e w) \<and>
   (reply_to e w 1 = 0 \<and> reply_to e w 3 = 0 \<and> reply_to e w 5 = 0 \<longrightarrow>
      (\<exists>w'. FragmentShader e s w = Returns (fst (gl_CreateShader e FRAGMENT_SHADER w)) w')) \<and>
   (reply_to e w 1 \<noteq> 0 \<or> reply_to e w 3 \<noteq> 0 \<or> reply_to e w 5 \<noteq> 0 \<longrightarrow>
      (\<exists>msg w'. FragmentShader e s w = Panics msg w')) \<and>
   VertexShader (e\<lparr>string_reply := logs\<rparr>) s w = VertexShader e s w \<and>
   Program (e\<lparr>string_reply := logs\<rparr>) f v w = Program e f v w \<and>
   FragmentShader (e\<lparr>string_reply := logs\<rparr>) s w = FragmentShader e s w"
proof (intro conjI)
  show "fst (VertexShader e s w) = fst (gl_CreateShader e VERTEX_SHADER w)"
    by (simp add: VertexShader_unfold gl_CreateShader_def)
  show "fst (Program e f v w) = fst (gl_CreateProgram e w)"
    by (simp add: Program_unfold gl_CreateProgram_def)
  show "reply_to e w 1 = 0 \<and> reply_to e w 3 = 0 \<and> reply_to e w 5 = 0 \<longrightarrow>
      (\<exists>w'. FragmentShader e s w = Returns (fst (gl_CreateShader e FRAGMENT_SHADER w)) w')"
    by (simp add: FragmentShader_unfold gl_CreateShader_def)
  show "reply_to e w 1 \<noteq> 0 \<or> reply_to e w 3 \<noteq> 0 \<or> reply_to e w 5 \<noteq> 0 \<longrightarrow>
      (\<exists>msg w'. FragmentShader e s w = Panics msg w')"
    by (simp add: FragmentShader_unfold)
  show "VertexShader (e\<lparr>string_reply := logs\<rparr>) s w = VertexShader e s w"
    by (simp add: VertexShader_unfold)
  show "Program (e\<lparr>string_reply := logs\<rparr>) f v w = Program e f v w"
    by (simp add: Program_unfold)
  show "FragmentShader (e\<lparr>string_reply := logs\<rparr>) s w = FragmentShader e s w"
    by (simp add: FragmentShader_unfold)
qed

theorem shader_functions_return_handle_witness:
  "reply_to (env_of None [7, 0, 0, 0, 0, 0, 0]) world0 1 = 0 \<and>
   reply_to (env_of None [7, 0, 0, 0, 0, 0, 0]) world0 3 = 0 \<and>
   reply_to (env_of None [7, 0, 0, 0, 0, 0, 0]) world0 5 = 0 \<and>
   (\<exists>w'. FragmentShader (env_of None [7, 0, 0, 0, 0, 0, 0]) fsh world0 = Returns 7 w') \<and>
   reply_to (env_of None [7, 0, 0, 0, 0, 0x502]) world0 5 \<noteq> 0 \<and>
   (\<exists>msg w'. FragmentShader (env_of None [7, 0, 0, 0, 0, 0x502]) fsh world0 = Panics msg w')"
  using shader_functions_return_handle
          [where e = "env_of None [7, 0, 0, 0, 0, 0, 0]" and s = fsh and w = world0]
        shader_functions_return_handle
          [where e = "env_of None [7, 0, 0, 0, 0, 0x502]" and s = fsh and w = world0]
  by (simp add: reply_to_def gl_CreateShader_def reply32_def env_of_def answers_def world0_def)

text \<open>
  Claim C9 as stated says that \<open>FragmentShader\<close> returns unconditionally. When
  \<open>gl.GetError\<close> reports \<open>0x505\<close> after \<open>gl.CreateShader\<close>, it panics in its first
  \<open>check\<close>.
\<close>

theorem FragmentShader_panics_counterexample:
  "FragmentShader (env_of None [7, 0x505]) fsh world0 =
     Panics ''An error occurred! Code: 0x505''
       (world0\<lparr>trace := [Gl (CreateShader FRAGMENT_SHADER), Gl GetError]\<rparr>)"
  by (simp add: FragmentShader_unfold reply_to_def reply32_def env_of_def answers_def world0_def
      hex.simps hex_digit_def)

subsection \<open>The terminate case\<close>

text \<open>
  Claim C1. When a value is received on the terminate channel, the loop destroys the EGL
  surface, destroys the context and terminates the display, in this order, and after
  that sends 0 on the terminate channel. What the claim adds, that the loop stops the
  timer, the code does not do: the case makes no call of \<open>Stop\<close> and hands the loop
  back with its ticker as it was. From the state \<open>(loop0, world0)\<close>, whose ticker runs,
  the ticker still runs after the acknowledgement, and a tick that elapses afterwards is
  received, drawn and swapped on the surface that was destroyed.
\<close>

theorem terminate_leaves_ticker_running:
  "Run_case from_terminate l w =
     (l, w\<lparr>trace := trace w @
            [Egl (DestroySurface Display Surface), Egl (DestroyContext Display Context),
             Egl (Terminate Display), App (Send terminate_chan 0)]\<rparr>) \<and>
   ticker (fst (Run_case from_terminate l w)) = ticker l \<and>
   App Ticker_Stop \<notin> set (new_calls w (snd (Run_case from_terminate l w))) \<and>
   Run_loop [selects from_terminate, runs_body] (None, l, w) =
     Some (None, l, w\<lparr>trace := trace w @
            [Egl (DestroySurface Display Surface), Egl (DestroyContext Display Context),
             Egl (Terminate Display), App (Send terminate_chan 0)]\<rparr>) \<and>
   Run_loop [selects from_terminate, runs_body, period_elapses, selects from_ticker_C, runs_body]
     (None, loop0, world0) =
     Some (None, \<lparr>ticker = \<lparr>period = 41666666, running = True, pending = False\<rparr>\<rparr>,
           world0\<lparr>trace :=
             [Egl (DestroySurface Display Surface), Egl (DestroyContext Display Context),
              Egl (Terminate Display), App (Send terminate_chan 0),
              Draw (Viewport 0 0 640 480), Draw (Clear [COLOR_BUFFER_BIT, DEPTH_BUFFER_BIT]),
              Draw (BindBuffer ARRAY_BUFFER 1), Draw (VertexAttribPointer 0 4 FLOAT False 0 0),
              Draw (BindBuffer ARRAY_BUFFER 2), Draw (VertexAttribPointer 1 4 FLOAT False 0 0),
              Draw (DrawArrays TRIANGLES 0 3), Draw Flush, Draw Finish,
              Egl (SwapBuffers Display Surface)]\<rparr>)"
  by (simp add: ready_def received_def Run_case_terminate Run_case_tick tick_elapses_def
      loop0_def world0_def)

subsection \<open>The iterations of \<open>Run\<close>\<close>

text \<open>
  Claim C2. Every iteration of \<open>Run\<close> selects among exactly three events: whatever
  happened before, when the loop is at its \<open>select\<close> it can do nothing but receive, a
  receive is from the pause channel, the terminate channel or the ticker's channel (the
  first two are possible whenever the application sends, the third when a tick waits),
  and the iteration then runs the body of that case and is back at the \<open>select\<close>. The
  body of a tick calls \<open>draw\<close> once and then \<open>egl.SwapBuffers\<close> once; the other two
  bodies draw and swap nothing. Hence over any run of the loop, from any state at the
  \<open>select\<close> and in particular from the state the setup of \<open>Run\<close> leaves, the draws and
  swaps made are one \<open>gl.DrawArrays\<close> followed by one \<open>egl.SwapBuffers\<close> for each tick
  received, strictly alternating, the last tick received being excepted while its body
  has not run yet.
\<close>

theorem Run_selects_three_events_tick_draws_once:
  "(c = from_pause \<or> c = from_terminate \<or> c = from_ticker_C) \<and>
   distinct [from_pause, from_terminate, from_ticker_C] \<and>
   ready from_pause l \<and> ready from_terminate l \<and>
   (ready from_ticker_C l \<longleftrightarrow> pending (ticker l)) \<and>
   (Run_loop evs s = Some (None, lm, wm) \<longrightarrow>
      Run_loop (evs @ [runs_body]) s = None \<and>
      Run_loop (evs @ [selects c]) s =
        (if ready c lm then Some (Some c, received c lm, wm) else None) \<and>
      Run_loop (evs @ [selects c, runs_body]) s =
        (if ready c lm then Some (None, Run_case c (received c lm) wm) else None)) \<and>
   Run_case from_ticker_C l w =
     (l, perform (Egl (SwapBuffers Display Surface)) (draw (currWidth w) (currHeight w) w)) \<and>
   new_calls w (snd (Run_case from_ticker_C l w)) =
     new_calls w (draw (currWidth w) (currHeight w) w) @ [Egl (SwapBuffers Display Surface)] \<and>
   draws (new_calls w (draw (currWidth w) (currHeight w) w)) = 1 \<and>
   swaps (new_calls w (draw (currWidth w) (currHeight w) w)) = 0 \<and>
   draws (new_calls w (snd (Run_case from_ticker_C l w))) = 1 \<and>
   swaps (new_calls w (snd (Run_case from_ticker_C l w))) = 1 \<and>
   draws (new_calls w (snd (Run_case from_pause l w))) = 0 \<and>
   swaps (new_calls w (snd (Run_case from_pause l w))) = 0 \<and>
   draws (new_calls w (snd (Run_case from_terminate l w))) = 0 \<and>
   swaps (new_calls w (snd (Run_case from_terminate l w))) = 0 \<and>
   (Run_loop evs (None, l, w) = Some (pc', l', w') \<longrightarrow>
      (\<exists>n. filter is_frame_call (new_calls w w') =
          concat (replicate n
            [Draw (DrawArrays TRIANGLES 0 3), Egl (SwapBuffers Display Surface)]) \<and>
           draws (new_calls w w') = n \<and> swaps (new_calls w w') = n \<and>
           n + of_bool (pc' = Some from_ticker_C) = count_list evs (selects from_ticker_C))) \<and>
   (Run e evs l w = Some (Looping pc' l' w') \<longrightarrow>
      (\<exists>ws n. Run_setup e w = Returns () ws \<and>
           Run_loop evs (None, l, ws) = Some (pc', l', w') \<and>
           filter is_frame_call (new_calls ws w') =
               concat (replicate n
                 [Draw (DrawArrays TRIANGLES 0 3), Egl (SwapBuffers Display Surface)]) \<and>
           draws (new_calls ws w') = n \<and> swaps (new_calls ws w') = n \<and>
           n + of_bool (pc' = Some from_ticker_C) = count_list evs (selects from_ticker_C)))"
proof -
  have loop: "\<exists>n. filter is_frame_call (new_calls v v') =
      concat (replicate n
        [Draw (DrawArrays TRIANGLES 0 3), Egl (SwapBuffers Display Surface)]) \<and>
           draws (new_calls v v') = n \<and> swaps (new_calls v v') = n \<and>
           n + of_bool (q = Some from_ticker_C) = count_list evs (selects from_ticker_C)"
    if "Run_loop evs (None, k, v) = Some (q, k', v')" for k v q k' v'
  proof -
    from Run_loop_calls [OF that] obtain cs n where
      v': "v' = v\<lparr>trace := trace v @ cs\<rparr>"
      and alt: "filter is_frame_call cs =
          concat (replicate n
            [Draw (DrawArrays TRIANGLES 0 3), Egl (SwapBuffers Display Surface)])"
      and cnt: "n + of_bool (q = Some from_ticker_C) =
        of_bool (None = Some from_ticker_C) + count_list evs (selects from_ticker_C)"
      by blast
    from v' have "new_calls v v' = cs" by simp
    with alt cnt alternating_counts [OF alt] show ?thesis by simp
  qed
  show ?thesis
  proof (intro conjI impI)
    show "c = from_pause \<or> c = from_terminate \<or> c = from_ticker_C"
      by (cases c) simp_all
    show "ready from_ticker_C l \<longleftrightarrow> pending (ticker l)"
      by (simp add: ready_def)
    show "Run_case from_ticker_C l w =
       (l, perform (Egl (SwapBuffers Display Surface)) (draw (currWidth w) (currHeight w) w))"
      by (simp add: Run_case_def)
  next
    assume "Run_loop evs s = Some (None, lm, wm)"
    then show "Run_loop (evs @ [runs_body]) s = None"
      "Run_loop (evs @ [selects c]) s =
        (if ready c lm then Some (Some c, received c lm, wm) else None)"
      "Run_loop (evs @ [selects c, runs_body]) s =
        (if ready c lm then Some (None, Run_case c (received c lm) wm) else None)"
      by (simp_all add: Run_loop_append split: prod.splits)
  next
    assume "Run_loop evs (None, l, w) = Some (pc', l', w')"
    then show "\<exists>n. filter is_frame_call (new_calls w w') =
        concat (replicate n
          [Draw (DrawArrays TRIANGLES 0 3), Egl (SwapBuffers Display Surface)]) \<and>
           draws (new_calls w w') = n \<and> swaps (new_calls w w') = n \<and>
           n + of_bool (pc' = Some from_ticker_C) = count_list evs (selects from_ticker_C)"
      by (rule loop)
  next
    assume "Run e evs l w = Some (Looping pc' l' w')"
    then obtain ws where st: "Run_setup e w = Returns () ws"
      and run: "Run_loop evs (None, l, ws) = Some (pc', l', w')"
      by (auto simp: Run_def split: outcome.splits option.splits prod.splits)
    from loop [OF run] st run
    show "\<exists>ws n. Run_setup e w = Returns () ws \<and>
           Run_loop evs (None, l, ws) = Some (pc', l', w') \<and>
           filter is_frame_call (new_calls ws w') =
               concat (replicate n
                 [Draw (DrawArrays TRIANGLES 0 3), Egl (SwapBuffers Display Surface)]) \<and>
           draws (new_calls ws w') = n \<and> swaps (new_calls ws w') = n \<and>
           n + of_bool (pc' = Some from_ticker_C) = count_list evs (selects from_ticker_C)"
      by blast
  qed (simp_all add: ready_def Run_case_pause Run_case_terminate Run_case_tick draw_unfold
         perform_def draws_def swaps_def)
qed

theorem Run_selects_three_events_tick_draws_once_witness:
  "Run_loop [period_elapses, selects from_ticker_C, runs_body] (None, loop0, world0) =
     Some (None, loop0, world0\<lparr>trace := [Draw (Viewport 0 0 640 480), Draw (Clear [COLOR_BUFFER_BIT, DEPTH_BUFFER_BIT]),
        Draw (BindBuffer ARRAY_BUFFER 1), Draw (VertexAttribPointer 0 4 FLOAT False 0 0),
        Draw (BindBuffer ARRAY_BUFFER 2), Draw (VertexAttribPointer 1 4 FLOAT False 0 0),
        Draw (DrawArrays TRIANGLES 0 3), Draw Flush, Draw Finish,
        Egl (SwapBuffers Display Surface)]\<rparr>) \<and>
   count_list [period_elapses, selects from_ticker_C, runs_body] (selects from_ticker_C) = 1 \<and>
   filter is_frame_call [Draw (Viewport 0 0 640 480), Draw (Clear [COLOR_BUFFER_BIT, DEPTH_BUFFER_BIT]),
        Draw (BindBuffer ARRAY_BUFFER 1), Draw (VertexAttribPointer 0 4 FLOAT False 0 0),
        Draw (BindBuffer ARRAY_BUFFER 2), Draw (VertexAttribPointer 1 4 FLOAT False 0 0),
        Draw (DrawArrays TRIANGLES 0 3), Draw Flush, Draw Finish,
        Egl (SwapBuffers Display Surface)] =
     [Draw (DrawArrays TRIANGLES 0 3), Egl (SwapBuffers Display Surface)] \<and>
   (\<exists>ws. Run_setup env_ok world0 = Returns () ws \<and>
      Run env_ok [period_elapses, selects from_ticker_C, runs_body] loop0 world0 =
        Some (Looping None loop0 (ws\<lparr>trace := trace ws @ [Draw (Viewport 0 0 640 480), Draw (Clear [COLOR_BUFFER_BIT, DEPTH_BUFFER_BIT]),
        Draw (BindBuffer ARRAY_BUFFER 1), Draw (VertexAttribPointer 0 4 FLOAT False 0 0),
        Draw (BindBuffer ARRAY_BUFFER 2), Draw (VertexAttribPointer 1 4 FLOAT False 0 0),
        Draw (DrawArrays TRIANGLES 0 3), Draw Flush, Draw Finish,
        Egl (SwapBuffers Display Surface)]\<rparr>)))"
proof -
  have run: "Run_loop [period_elapses, selects from_ticker_C, runs_body] (None, loop0, world0) =
     Some (None, loop0, world0\<lparr>trace := [Draw (Viewport 0 0 640 480), Draw (Clear [COLOR_BUFFER_BIT, DEPTH_BUFFER_BIT]),
        Draw (BindBuffer ARRAY_BUFFER 1), Draw (VertexAttribPointer 0 4 FLOAT False 0 0),
        Draw (BindBuffer ARRAY_BUFFER 2), Draw (VertexAttribPointer 1 4 FLOAT False 0 0),
        Draw (DrawArrays TRIANGLES 0 3), Draw Flush, Draw Finish,
        Egl (SwapBuffers Display Surface)]\<rparr>)"
    by (simp add: ready_def received_def Run_case_tick tick_elapses_def loop0_def world0_def)
  have whole: "\<exists>ws. Run_setup env_ok world0 = Returns () ws \<and>
      Run env_ok [period_elapses, selects from_ticker_C, runs_body] loop0 world0 =
        Some (Looping None loop0 (ws\<lparr>trace := trace ws @ [Draw (Viewport 0 0 640 480), Draw (Clear [COLOR_BUFFER_BIT, DEPTH_BUFFER_BIT]),
        Draw (BindBuffer ARRAY_BUFFER 1), Draw (VertexAttribPointer 0 4 FLOAT False 0 0),
        Draw (BindBuffer ARRAY_BUFFER 2), Draw (VertexAttribPointer 1 4 FLOAT False 0 0),
        Draw (DrawArrays TRIANGLES 0 3), Draw Flush, Draw Finish,
        Egl (SwapBuffers Display Surface)]\<rparr>))"
    by (simp only: Run_def setup_ok outcome.case)
       (simp add: ready_def received_def Run_case_tick tick_elapses_def loop0_def world0_def)
  from Run_selects_three_events_tick_draws_once
         [where evs = "[period_elapses, selects from_ticker_C, runs_body]"
            and l = loop0 and w = world0 and pc' = None and l' = loop0
            and w' = "world0\<lparr>trace := [Draw (Viewport 0 0 640 480), Draw (Clear [COLOR_BUFFER_BIT, DEPTH_BUFFER_BIT]),
        Draw (BindBuffer ARRAY_BUFFER 1), Draw (VertexAttribPointer 0 4 FLOAT False 0 0),
        Draw (BindBuffer ARRAY_BUFFER 2), Draw (VertexAttribPointer 1 4 FLOAT False 0 0),
        Draw (DrawArrays TRIANGLES 0 3), Draw Flush, Draw Finish,
        Egl (SwapBuffers Display Surface)]\<rparr>"
            and s = "(None, loop0, world0)" and lm = loop0 and wm = world0
            and c = from_pause and e = env_ok]
       run whole
  show ?thesis
    by (simp add: is_frame_call_def)
qed

subsection \<open>After a pause\<close>

text \<open>
  Claim C10, as amended. Once a value has been received on the pause channel, the next
  action of the loop stops the ticker, and the ticker is stopped in every later state:
  nothing restarts it. From the receive on, in every later state, at most one more draw
  and one more buffer swap have occurred. From the moment \<open>l.ticker.Stop()\<close> runs, the
  draws and the swaps still to come are exactly one if a tick is in the ticker's channel
  at that moment, put there before the pause was received or between the receive and
  the \<open>Stop\<close>, and none if the channel is empty then. (Under the timer channels of
  Go 1.23, where no tick is received after \<open>Stop\<close>, the channel counts as empty.)
\<close>

theorem pause_stops_drawing_but_for_a_waiting_tick:
  "(Run_loop (selects from_pause # evs) (None, l, w) = Some (pc', l', w') \<longrightarrow>
      draws (trace w) \<le> draws (trace w') \<and> draws (trace w') \<le> draws (trace w) + 1 \<and>
      swaps (trace w) \<le> swaps (trace w') \<and> swaps (trace w') \<le> swaps (trace w) + 1 \<and>
      ((pc' = Some from_pause \<and> w' = w) \<or> \<not> running (ticker l'))) \<and>
   Run_step runs_body (Some from_pause, la, wa) =
     Some (None, la\<lparr>ticker := (ticker la)\<lparr>running := False\<rparr>\<rparr>,
           wa\<lparr>trace := trace wa @ [App Ticker_Stop, App (Send pause_chan 0)]\<rparr>) \<and>
   (Run_loop (runs_body # post) (Some from_pause, la, wa) = Some (pcb, lb, wb) \<longrightarrow>
      \<not> running (ticker lb) \<and>
      draws (trace wb) + of_bool (pending (ticker lb)) + of_bool (pcb = Some from_ticker_C) =
        draws (trace wa) + of_bool (pending (ticker la)) \<and>
      swaps (trace wb) + of_bool (pending (ticker lb)) + of_bool (pcb = Some from_ticker_C) =
        swaps (trace wa) + of_bool (pending (ticker la)) \<and>
      (pending (ticker la) \<or>
       (draws (trace wb) = draws (trace wa) \<and> swaps (trace wb) = swaps (trace wa))))"
proof (intro conjI impI)
  assume run: "Run_loop (selects from_pause # evs) (None, l, w) = Some (pc', l', w')"
  then have rest: "Run_loop evs (Some from_pause, l, w) = Some (pc', l', w')"
    by (simp add: ready_def received_def)
  from before_Stop [OF rest]
  have "(pc' = Some from_pause \<and> w' = w) \<or>
        (\<not> running (ticker l') \<and>
         draws (trace w) \<le> draws (trace w') \<and> draws (trace w') \<le> draws (trace w) + 1 \<and>
         swaps (trace w) \<le> swaps (trace w') \<and> swaps (trace w') \<le> swaps (trace w) + 1)"
  proof
    assume "pc' = Some from_pause \<and> w' = w"
    then show ?thesis by simp
  next
    assume "\<exists>pre post la. evs = pre @ runs_body # post \<and>
      Run_loop pre (Some from_pause, l, w) = Some (Some from_pause, la, w) \<and>
      Run_loop (runs_body # post) (Some from_pause, la, w) = Some (pc', l', w')"
    then obtain post la where
      "Run_loop (runs_body # post) (Some from_pause, la, w) = Some (pc', l', w')"
      by blast
    note inv = from_Stop_on [OF this]
    have b: "(of_bool (pending (ticker la)) :: nat) \<le> 1" by simp
    from inv b have "draws (trace w') \<le> draws (trace w) + 1"
      "swaps (trace w') \<le> swaps (trace w) + 1"
      by linarith+
    with inv show ?thesis by simp
  qed
  then show "draws (trace w) \<le> draws (trace w')" "draws (trace w') \<le> draws (trace w) + 1"
    "swaps (trace w) \<le> swaps (trace w')" "swaps (trace w') \<le> swaps (trace w) + 1"
    "(pc' = Some from_pause \<and> w' = w) \<or> \<not> running (ticker l')"
    by auto
next
  show "Run_step runs_body (Some from_pause, la, wa) =
     Some (None, la\<lparr>ticker := (ticker la)\<lparr>running := False\<rparr>\<rparr>,
           wa\<lparr>trace := trace wa @ [App Ticker_Stop, App (Send pause_chan 0)]\<rparr>)"
    by (rule pause_body_step)
next
  assume run: "Run_loop (runs_body # post) (Some from_pause, la, wa) = Some (pcb, lb, wb)"
  note inv = from_Stop_on [OF run]
  from inv show "\<not> running (ticker lb)" by simp
  from inv show
    "draws (trace wb) + of_bool (pending (ticker lb)) + of_bool (pcb = Some from_ticker_C) =
       draws (trace wa) + of_bool (pending (ticker la))"
    by simp
  from inv show
    "swaps (trace wb) + of_bool (pending (ticker lb)) + of_bool (pcb = Some from_ticker_C) =
       swaps (trace wa) + of_bool (pending (ticker la))"
    by simp
  from inv show "pending (ticker la) \<or>
       (draws (trace wb) = draws (trace wa) \<and> swaps (trace wb) = swaps (trace wa))"
    by (cases "pending (ticker la)") auto
qed

theorem pause_stops_drawing_but_for_a_waiting_tick_witness:
  "Run_loop [selects from_pause, period_elapses, runs_body, selects from_ticker_C, runs_body]
     (None, loop0, world0) =
     Some (None, \<lparr>ticker = \<lparr>period = 41666666, running = False, pending = False\<rparr>\<rparr>,
           world0\<lparr>trace :=
             [App Ticker_Stop, App (Send pause_chan 0),
              Draw (Viewport 0 0 640 480), Draw (Clear [COLOR_BUFFER_BIT, DEPTH_BUFFER_BIT]),
              Draw (BindBuffer ARRAY_BUFFER 1), Draw (VertexAttribPointer 0 4 FLOAT False 0 0),
              Draw (BindBuffer ARRAY_BUFFER 2), Draw (VertexAttribPointer 1 4 FLOAT False 0 0),
              Draw (DrawArrays TRIANGLES 0 3), Draw Flush, Draw Finish,
              Egl (SwapBuffers Display Surface)]\<rparr>) \<and>
   Run_loop [runs_body, selects from_ticker_C, runs_body]
     (Some from_pause, loop0\<lparr>ticker := tick_elapses (ticker loop0)\<rparr>, world0) =
     Some (None, \<lparr>ticker = \<lparr>period = 41666666, running = False, pending = False\<rparr>\<rparr>,
           world0\<lparr>trace :=
             [App Ticker_Stop, App (Send pause_chan 0),
              Draw (Viewport 0 0 640 480), Draw (Clear [COLOR_BUFFER_BIT, DEPTH_BUFFER_BIT]),
              Draw (BindBuffer ARRAY_BUFFER 1), Draw (VertexAttribPointer 0 4 FLOAT False 0 0),
              Draw (BindBuffer ARRAY_BUFFER 2), Draw (VertexAttribPointer 1 4 FLOAT False 0 0),
              Draw (DrawArrays TRIANGLES 0 3), Draw Flush, Draw Finish,
              Egl (SwapBuffers Display Surface)]\<rparr>) \<and>
   pending (ticker (loop0\<lparr>ticker := tick_elapses (ticker loop0)\<rparr>)) \<and>
   draws [App Ticker_Stop, App (Send pause_chan 0),
          Draw (Viewport 0 0 640 480), Draw (Clear [COLOR_BUFFER_BIT, DEPTH_BUFFER_BIT]),
          Draw (BindBuffer ARRAY_BUFFER 1), Draw (VertexAttribPointer 0 4 FLOAT False 0 0),
          Draw (BindBuffer ARRAY_BUFFER 2), Draw (VertexAttribPointer 1 4 FLOAT False 0 0),
          Draw (DrawArrays TRIANGLES 0 3), Draw Flush, Draw Finish,
          Egl (SwapBuffers Display Surface)] = draws (trace world0) + 1 \<and>
   swaps [App Ticker_Stop, App (Send pause_chan 0),
          Draw (Viewport 0 0 640 480), Draw (Clear [COLOR_BUFFER_BIT, DEPTH_BUFFER_BIT]),
          Draw (BindBuffer ARRAY_BUFFER 1), Draw (VertexAttribPointer 0 4 FLOAT False 0 0),
          Draw (BindBuffer ARRAY_BUFFER 2), Draw (VertexAttribPointer 1 4 FLOAT False 0 0),
          Draw (DrawArrays TRIANGLES 0 3), Draw Flush, Draw Finish,
          Egl (SwapBuffers Display Surface)] = swaps (trace world0) + 1"
proof -
  let ?final = "(None :: select_case option,
     \<lparr>ticker = \<lparr>period = 41666666, running = False, pending = False\<rparr>\<rparr>,
     world0\<lparr>trace :=
       [App Ticker_Stop, App (Send pause_chan 0),
        Draw (Viewport 0 0 640 480), Draw (Clear [COLOR_BUFFER_BIT, DEPTH_BUFFER_BIT]),
        Draw (BindBuffer ARRAY_BUFFER 1), Draw (VertexAttribPointer 0 4 FLOAT False 0 0),
        Draw (BindBuffer ARRAY_BUFFER 2), Draw (VertexAttribPointer 1 4 FLOAT False 0 0),
        Draw (DrawArrays TRIANGLES 0 3), Draw Flush, Draw Finish,
        Egl (SwapBuffers Display Surface)]\<rparr>)"
  have run1: "Run_loop
     [selects from_pause, period_elapses, runs_body, selects from_ticker_C, runs_body]
     (None, loop0, world0) = Some ?final"
    by (simp add: ready_def received_def Run_case_pause Run_case_tick tick_elapses_def
        loop0_def world0_def)
  have run2: "Run_loop [runs_body, selects from_ticker_C, runs_body]
     (Some from_pause, loop0\<lparr>ticker := tick_elapses (ticker loop0)\<rparr>, world0) = Some ?final"
    by (simp add: ready_def received_def Run_case_pause Run_case_tick tick_elapses_def
        loop0_def world0_def)
  from pause_stops_drawing_but_for_a_waiting_tick
         [where evs = "[period_elapses, runs_body, selects from_ticker_C, runs_body]"
            and l = loop0 and w = world0
            and pc' = None
            and l' = "\<lparr>ticker = \<lparr>period = 41666666, running = False, pending = False\<rparr>\<rparr>"
            and w' = "snd (snd ?final)"
            and la = "loop0\<lparr>ticker := tick_elapses (ticker loop0)\<rparr>" and wa = world0
            and post = "[selects from_ticker_C, runs_body]"
            and pcb = None
            and lb = "\<lparr>ticker = \<lparr>period = 41666666, running = False, pending = False\<rparr>\<rparr>"
            and wb = "snd (snd ?final)"]
       run1 run2
  show ?thesis
    by (simp add: loop0_def world0_def tick_elapses_def draws_def swaps_def)
qed

text \<open>
  Claim C10 as stated allows no draw at all after a pause. When the period has elapsed and
  the tick waits in the ticker's channel while the pause request arrives, and the
  \<open>select\<close> takes the pause first, the next iteration receives the waiting tick: a
  frame is drawn and swapped after the pause was acknowledged.
\<close>

theorem tick_waiting_at_pause_counterexample:
  "Run_loop [period_elapses, selects from_pause, runs_body, selects from_ticker_C, runs_body]
     (None, loop0, world0) =
     Some (None, \<lparr>ticker = \<lparr>period = 41666666, running = False, pending = False\<rparr>\<rparr>,
           world0\<lparr>trace :=
             [App Ticker_Stop, App (Send pause_chan 0),
              Draw (Viewport 0 0 640 480), Draw (Clear [COLOR_BUFFER_BIT, DEPTH_BUFFER_BIT]),
              Draw (BindBuffer ARRAY_BUFFER 1), Draw (VertexAttribPointer 0 4 FLOAT False 0 0),
              Draw (BindBuffer ARRAY_BUFFER 2), Draw (VertexAttribPointer 1 4 FLOAT False 0 0),
              Draw (DrawArrays TRIANGLES 0 3), Draw Flush, Draw Finish,
              Egl (SwapBuffers Display Surface)]\<rparr>)"
  by (simp add: ready_def received_def Run_case_pause Run_case_tick tick_elapses_def
      loop0_def world0_def)

subsection \<open>The period of the ticker\<close>

text \<open>
  Claim C4. Whenever \<open>newRenderLoop fps\<close> returns a loop, the loop's ticker is running
  with the period \<open>1e9 / fps\<close> (Go's integer quotient) and \<open>time.NewTicker\<close> was
  called once, with that period. It does return one for every \<open>fps\<close> from 1 to \<open>1e9\<close>,
  where the quotient is \<open>1000000000 div fps\<close>. With \<open>FRAMES_PER_SECOND\<close>, 24, the
  period is 41666666 nanoseconds: 24 periods fit into a second and 25 do not.
\<close>

theorem newRenderLoop_period:
  "(\<forall>l w'. newRenderLoop fps w = Returns l w' \<longrightarrow>
      period (ticker l) = go_quot 1000000000 fps \<and> running (ticker l) \<and>
      new_calls w w' = [App (NewTicker (go_quot 1000000000 fps))]) \<and>
   (0 < fps \<and> fps \<le> 1000000000 \<longrightarrow>
      newRenderLoop fps w =
        Returns \<lparr>ticker = \<lparr>period = 1000000000 div fps, running = True, pending = False\<rparr>\<rparr>
          (perform (App (NewTicker (1000000000 div fps))) w)) \<and>
   newRenderLoop FRAMES_PER_SECOND w =
     Returns \<lparr>ticker = \<lparr>period = 41666666, running = True, pending = False\<rparr>\<rparr>
       (perform (App (NewTicker 41666666)) w) \<and>
   FRAMES_PER_SECOND * 41666666 \<le> 1000000000 \<and>
   1000000000 < (FRAMES_PER_SECOND + 1) * 41666666"
proof (intro conjI)
  show "\<forall>l w'. newRenderLoop fps w = Returns l w' \<longrightarrow>
      period (ticker l) = go_quot 1000000000 fps \<and> running (ticker l) \<and>
      new_calls w w' = [App (NewTicker (go_quot 1000000000 fps))]"
    by (auto simp: newRenderLoop_unfold split: if_splits)
  show "0 < fps \<and> fps \<le> 1000000000 \<longrightarrow>
      newRenderLoop fps w =
        Returns \<lparr>ticker = \<lparr>period = 1000000000 div fps, running = True, pending = False\<rparr>\<rparr>
          (perform (App (NewTicker (1000000000 div fps))) w)"
  proof
    assume fps: "0 < fps \<and> fps \<le> 1000000000"
    then have q: "go_quot 1000000000 fps = 1000000000 div fps"
      by (simp add: go_quot_pos)
    from fps have "0 < 1000000000 div fps"
      using pos_imp_zdiv_pos_iff [of fps 1000000000] by simp
    with fps q show "newRenderLoop fps w =
        Returns \<lparr>ticker = \<lparr>period = 1000000000 div fps, running = True, pending = False\<rparr>\<rparr>
          (perform (App (NewTicker (1000000000 div fps))) w)"
      by (simp add: newRenderLoop_unfold perform_def)
  qed
  show "newRenderLoop FRAMES_PER_SECOND w =
     Returns \<lparr>ticker = \<lparr>period = 41666666, running = True, pending = False\<rparr>\<rparr>
       (perform (App (NewTicker 41666666)) w)"
    by (simp add: newRenderLoop_unfold FRAMES_PER_SECOND_def go_quot_def perform_def)
qed (simp_all add: FRAMES_PER_SECOND_def)

theorem newRenderLoop_period_witness:
  "(0::int) < 50 \<and> (50::int) \<le> 1000000000 \<and>
   newRenderLoop 50 world0 =
     Returns \<lparr>ticker = \<lparr>period = 20000000, running = True, pending = False\<rparr>\<rparr>
       (world0\<lparr>trace := [App (NewTicker 20000000)]\<rparr>) \<and>
   period (ticker \<lparr>ticker = \<lparr>period = 20000000, running = True, pending = False\<rparr>\<rparr>) =
     go_quot 1000000000 50"
  using newRenderLoop_period [where fps = 50 and w = world0]
  by (simp add: perform_def world0_def go_quot_def)

subsection \<open>The flag \<open>-info\<close>\<close>

text \<open>
  Claim C5. \<open>main\<close> returns, and the calls it makes are: if the flag is set, the four
  queries \<open>GL_RENDERER\<close>, \<open>GL_VERSION\<close>, \<open>GL_VENDOR\<close>, \<open>GL_EXTENSIONS\<close>, each followed
  by the log line that prints its answer; then, in either case, the creation of the
  ticker, the registration of the render loop, the installation of the signal handler,
  the start of the application and the wait for its exit. So something is logged, and
  \<open>gl.GetString\<close> is called, if and only if the flag is set, and from the registration
  of the render loop on nothing is logged or queried: the printing is over before the
  loop is registered and started.
\<close>

theorem main_prints_info_iff_flag:
  "(\<exists>w'. main info e w = Returns () w' \<and>
      new_calls w w' =
        (if info
         then [Gl (GetString RENDERER),
               App (log_Printf (''GL_RENDERER   = '' @ string_reply_to e w 0 @ [CHR 0x0A])),
               Gl (GetString VERSION),
               App (log_Printf (''GL_VERSION    = '' @ string_reply_to e w 2 @ [CHR 0x0A])),
               Gl (GetString VENDOR),
               App (log_Printf (''GL_VENDOR     = '' @ string_reply_to e w 4 @ [CHR 0x0A])),
               Gl (GetString EXTENSIONS),
               App (log_Printf (''GL_EXTENSIONS = '' @ string_reply_to e w 6 @ [CHR 0x0A]))]
         else []) @
        [App (NewTicker 41666666), App (application_Register ''render loop''),
         App application_InstallSignalHandler, App application_Run, App (Receive exitCh)] \<and>
      (info \<longleftrightarrow> (\<exists>s. App (log_Printf s) \<in> set (new_calls w w'))) \<and>
      (info \<longleftrightarrow> (\<exists>name. Gl (GetString name) \<in> set (new_calls w w'))) \<and>
      (\<forall>s. App (log_Printf s) \<notin>
         set (dropWhile (\<lambda>c. c \<noteq> App (application_Register ''render loop'')) (new_calls w w'))) \<and>
      (\<forall>name. Gl (GetString name) \<notin>
         set (dropWhile (\<lambda>c. c \<noteq> App (application_Register ''render loop'')) (new_calls w w'))) \<and>
      dropWhile (\<lambda>c. c \<noteq> App (application_Register ''render loop'')) (new_calls w w') =
        [App (application_Register ''render loop''), App application_InstallSignalHandler,
         App application_Run, App (Receive exitCh)])"
  by (cases info) (auto simp add: main_unfold)

theorem main_prints_info_iff_flag_witness:
  "main True (env_of None []) world0 =
     Returns ()
       (world0\<lparr>trace :=
          [Gl (GetString RENDERER), App (log_Printf (''GL_RENDERER   = Mesa'' @ [CHR 0x0A])),
           Gl (GetString VERSION), App (log_Printf (''GL_VERSION    = Mesa'' @ [CHR 0x0A])),
           Gl (GetString VENDOR), App (log_Printf (''GL_VENDOR     = Mesa'' @ [CHR 0x0A])),
           Gl (GetString EXTENSIONS), App (log_Printf (''GL_EXTENSIONS = Mesa'' @ [CHR 0x0A])),
           App (NewTicker 41666666), App (application_Register ''render loop''),
           App application_InstallSignalHandler, App application_Run,
           App (Receive exitCh)]\<rparr>) \<and>
   main False (env_of None []) world0 =
     Returns ()
       (world0\<lparr>trace :=
          [App (NewTicker 41666666), App (application_Register ''render loop''),
           App application_InstallSignalHandler, App application_Run,
           App (Receive exitCh)]\<rparr>)"
  using main_prints_info_iff_flag [where info = True and e = "env_of None []" and w = world0]
        main_prints_info_iff_flag [where info = False and e = "env_of None []" and w = world0]
  by (simp add: main_unfold string_reply_to_def env_of_def world0_def)

subsection \<open>The signal handler\<close>

text \<open>
  Claim C6. The handler that \<open>main\<close> installs, \<open>HandleSignal\<close>, calls
  \<open>application.Exit\<close>, once, exactly when the signal it receives is the
  \<open>syscall.Signal\<close> \<open>SIGTERM\<close> or \<open>SIGINT\<close>; for every other signal it makes no call
  and leaves the state as it is.
\<close>

theorem HandleSignal_exits_on_SIGTERM_SIGINT:
  "HandleSignal s w =
     (if s = syscall_Signal SIGTERM \<or> s = syscall_Signal SIGINT
      then perform (App application_Exit) w else w) \<and>
   (App application_Exit \<in> set (new_calls w (HandleSignal s w)) \<longleftrightarrow>
      s = syscall_Signal SIGTERM \<or> s = syscall_Signal SIGINT) \<and>
   new_calls w (HandleSignal s w) =
     (if s = syscall_Signal SIGTERM \<or> s = syscall_Signal SIGINT
      then [App application_Exit] else [])"
  by (cases s) (simp_all add: HandleSignal_def perform_def new_calls_def)

theorem HandleSignal_exits_on_SIGTERM_SIGINT_witness:
  "HandleSignal (syscall_Signal 15) world0 = world0\<lparr>trace := [App application_Exit]\<rparr> \<and>
   HandleSignal (syscall_Signal 2) world0 = world0\<lparr>trace := [App application_Exit]\<rparr> \<and>
   HandleSignal (syscall_Signal 1) world0 = world0 \<and>
   HandleSignal (other_Signal ''custom'') world0 = world0"
  using HandleSignal_exits_on_SIGTERM_SIGINT [of "syscall_Signal 15" world0]
        HandleSignal_exits_on_SIGTERM_SIGINT [of "syscall_Signal 2" world0]
        HandleSignal_exits_on_SIGTERM_SIGINT [of "syscall_Signal 1" world0]
        HandleSignal_exits_on_SIGTERM_SIGINT [of "other_Signal ''custom''" world0]
  by (simp add: SIGTERM_def SIGINT_def perform_def world0_def)

subsection \<open>Failure to connect\<close>

text \<open>
  Claim C7. When \<open>xgbutil.NewConn\<close> returns an error, \<open>initialize\<close> logs it with
  \<open>log.Fatal\<close> and the process ends with status 1. \<open>NewConn\<close> has been called once and
  is not called again, and no other call follows: \<open>Run\<close>, which calls \<open>initialize\<close>
  first, never reaches its loop, whatever events are scheduled.
\<close>

theorem initialize_fatal_when_no_connection:
  assumes "NewConn_error e = Some err"
  shows "initialize e w = Exits 1 (w\<lparr>trace := trace w @ [X NewConn, App (log_Fatal err)]\<rparr>) \<and>
         Run e evs l w =
           Some (Ended (Exits 1
             (w\<lparr>trace := trace w @ [App LockOSThread, X NewConn, App (log_Fatal err)]\<rparr>)))"
  using assms
  by (simp add: initialize_def Run_def Run_setup_def and_then_def perform_def Let_def)

theorem initialize_fatal_when_no_connection_witness:
  "NewConn_error (env_of (Some ''cannot connect to X server'') []) =
     Some ''cannot connect to X server'' \<and>
   initialize (env_of (Some ''cannot connect to X server'') []) world0 =
     Exits 1 (world0\<lparr>trace := [X NewConn, App (log_Fatal ''cannot connect to X server'')]\<rparr>) \<and>
   Run (env_of (Some ''cannot connect to X server'') [])
       [period_elapses, selects from_ticker_C] loop0 world0 =
     Some (Ended (Exits 1
       (world0\<lparr>trace :=
          [App LockOSThread, X NewConn, App (log_Fatal ''cannot connect to X server'')]\<rparr>)))"
  using initialize_fatal_when_no_connection
          [where e = "env_of (Some ''cannot connect to X server'') []"
             and err = "''cannot connect to X server''" and w = world0
             and evs = "[period_elapses, selects from_ticker_C]" and l = loop0]
  by (simp add: env_of_def world0_def)

end
